theory Spec2Isabelle
  imports Complex_Main "HOL-Library.AList"
begin

section \<open>Conventions\<close>

text \<open>
  The development embeds the per-tick simulation of \<^verbatim>\<open>src/game/GameEngine.ts\<close>
  (\<^verbatim>\<open>updatePlayer\<close>, \<^verbatim>\<open>updateBullets\<close>, \<^verbatim>\<open>updateGameState\<close>, \<^verbatim>\<open>animate\<close>) and the
  authority's \<^verbatim>\<open>hitPlayer\<close> mutation, which stands after the tables in \<^verbatim>\<open>convex/schema.ts\<close>.

  \<^item> A JavaScript \<^verbatim>\<open>number\<close> is modelled as a \<^typ>\<open>real\<close>: the arithmetic is the exact
    arithmetic that IEEE doubles approximate, and \<^verbatim>\<open>NaN\<close> and the infinities have no
    counterpart.
  \<^item> A reading of \<^verbatim>\<open>Date.now()\<close> is an \<^typ>\<open>int\<close> (milliseconds); it is passed to each
    operation as the argument \<open>now\<close>.
  \<^item> Document and object identifiers are strings.
  \<^item> A JavaScript \<^verbatim>\<open>Map\<close> whose iteration order matters is an association list in
    insertion order; a database table read by key only is a partial function.
\<close>

type_synonym ident = string

record vec3 =
  vec_x :: real
  vec_y :: real
  vec_z :: real

record rot2 =
  rot_x :: real
  rot_y :: real

section \<open>The authority: tables of \<^verbatim>\<open>convex/schema.ts\<close>\<close>

record player_doc =
  p_gameId :: ident
  p_userId :: "ident option"
  p_username :: string
  p_position :: vec3
  p_rotation :: rot2
  p_health :: real
  p_maxHealth :: real
  p_kills :: real
  p_deaths :: real
  p_isAlive :: bool
  p_lastUpdate :: int

record bullet_doc =
  b_gameId :: ident
  b_playerId :: ident
  b_startPosition :: vec3
  b_direction :: vec3
  b_speed :: real
  b_damage :: real
  b_timestamp :: int

record kill_doc =
  k_gameId :: ident
  k_killerId :: ident
  k_victimId :: ident
  k_killerName :: string
  k_victimName :: string
  k_weapon :: string
  k_timestamp :: int

text \<open>The database: \<^verbatim>\<open>players\<close> and \<^verbatim>\<open>bullets\<close> are read by identifier;
  \<^verbatim>\<open>kills\<close> is only ever inserted into, newest last.\<close>

record database =
  players_table :: "ident \<rightharpoonup> player_doc"
  bullets_table :: "ident \<rightharpoonup> bullet_doc"
  kills_table :: "kill_doc list"

datatype db_error = DocumentNotFound

text \<open>\<^verbatim>\<open>ctx.db.patch(id, fields)\<close> on the players table: the fields are merged into the
  stored document; patching an identifier that has no document throws.\<close>

definition patch_player ::
  "ident \<Rightarrow> (player_doc \<Rightarrow> player_doc) \<Rightarrow> database \<Rightarrow> db_error + database" where
  "patch_player pid f db =
     (case players_table db pid of
        None \<Rightarrow> Inl DocumentNotFound
      | Some d \<Rightarrow> Inr (db\<lparr>players_table := (players_table db)(pid \<mapsto> f d)\<rparr>))"

text \<open>\<^verbatim>\<open>ctx.db.insert("kills", doc)\<close>.\<close>

definition insert_kill :: "kill_doc \<Rightarrow> database \<Rightarrow> database" where
  "insert_kill k db = db\<lparr>kills_table := kills_table db @ [k]\<rparr>"

text \<open>\<^verbatim>\<open>ctx.db.delete(id)\<close> on the bullets table; deleting a missing document throws.\<close>

definition delete_bullet :: "ident \<Rightarrow> database \<Rightarrow> db_error + database" where
  "delete_bullet bid db =
     (case bullets_table db bid of
        None \<Rightarrow> Inl DocumentNotFound
      | Some _ \<Rightarrow> Inr (db\<lparr>bullets_table := (bullets_table db)(bid := None)\<rparr>))"

record hit_result =
  hit :: bool
  damage :: real
  killed :: bool

text \<open>The part of \<^verbatim>\<open>hitPlayer\<close> after the guard, with the three documents read.
  A mutation that throws commits nothing, so an error carries no database.\<close>

definition apply_hit ::
  "int \<Rightarrow> ident \<Rightarrow> ident \<Rightarrow> bullet_doc \<Rightarrow> player_doc \<Rightarrow> player_doc \<Rightarrow> database
     \<Rightarrow> db_error + (hit_result option \<times> database)" where
  "apply_hit now bulletId victimId bullet victim shooter db =
     (let newHealth = max 0 (p_health victim - b_damage bullet);
          isDead = (newHealth \<le> 0)
      in case patch_player victimId
                (\<lambda>d. d\<lparr>p_health := newHealth, p_isAlive := \<not> isDead,
                        p_deaths := (if isDead then p_deaths victim + 1 else p_deaths victim)\<rparr>) db of
           Inl e \<Rightarrow> Inl e
         | Inr db1 \<Rightarrow>
             (case (if isDead
                    then (case patch_player (b_playerId bullet)
                                 (\<lambda>d. d\<lparr>p_kills := p_kills shooter + 1\<rparr>) db1 of
                            Inl e \<Rightarrow> Inl e
                          | Inr db2 \<Rightarrow>
                              Inr (insert_kill
                                     \<lparr>k_gameId = p_gameId victim, k_killerId = b_playerId bullet,
                                      k_victimId = victimId, k_killerName = p_username shooter,
                                      k_victimName = p_username victim, k_weapon = ''rifle'',
                                      k_timestamp = now\<rparr> db2))
                    else Inr db1) of
                Inl e \<Rightarrow> Inl e
              | Inr db3 \<Rightarrow>
                  (case delete_bullet bulletId db3 of
                     Inl e \<Rightarrow> Inl e
                   | Inr db4 \<Rightarrow>
                       Inr (Some \<lparr>hit = True, damage = b_damage bullet, killed = isDead\<rparr>, db4))))"

text \<open>\<^verbatim>\<open>hitPlayer\<close>: \<open>None\<close> is the returned \<^verbatim>\<open>null\<close>.\<close>

definition hitPlayer ::
  "int \<Rightarrow> ident \<Rightarrow> ident \<Rightarrow> database \<Rightarrow> db_error + (hit_result option \<times> database)" where
  "hitPlayer now bulletId victimId db =
     (let bullet = bullets_table db bulletId;
          victim = players_table db victimId;
          shooter = (case bullet of None \<Rightarrow> None | Some b \<Rightarrow> players_table db (b_playerId b))
      in case bullet of
           None \<Rightarrow> Inr (None, db)
         | Some b \<Rightarrow>
             (case victim of
                None \<Rightarrow> Inr (None, db)
              | Some v \<Rightarrow>
                  (case shooter of
                     None \<Rightarrow> Inr (None, db)
                   | Some sh \<Rightarrow>
                       if \<not> p_isAlive v then Inr (None, db)
                       else apply_hit now bulletId victimId b v sh db)))"


section \<open>The client: vector helpers\<close>

text \<open>The operations of the three.js library that the engine calls, with the library's
  documented meaning over the reals. \<^verbatim>\<open>MathUtils.lerp(x, y, t)\<close> is
  \<^verbatim>\<open>(1 - t) * x + t * y\<close>; \<^verbatim>\<open>normalize()\<close> divides by \<^verbatim>\<open>length() || 1\<close>;
  \<^verbatim>\<open>applyAxisAngle\<close> is only ever called with the axis \<open>(0, 1, 0)\<close> and is the rotation
  about the vertical axis.\<close>

definition lerp :: "real \<Rightarrow> real \<Rightarrow> real \<Rightarrow> real" where
  "lerp a b t = (1 - t) * a + t * b"

definition vec_add :: "vec3 \<Rightarrow> vec3 \<Rightarrow> vec3" where
  "vec_add a b = \<lparr>vec_x = vec_x a + vec_x b, vec_y = vec_y a + vec_y b, vec_z = vec_z a + vec_z b\<rparr>"

definition multiplyScalar :: "vec3 \<Rightarrow> real \<Rightarrow> vec3" where
  "multiplyScalar a k = \<lparr>vec_x = vec_x a * k, vec_y = vec_y a * k, vec_z = vec_z a * k\<rparr>"

definition vec_length :: "vec3 \<Rightarrow> real" where
  "vec_length a = sqrt (vec_x a * vec_x a + vec_y a * vec_y a + vec_z a * vec_z a)"

definition vec_normalize :: "vec3 \<Rightarrow> vec3" where
  "vec_normalize a = multiplyScalar a (1 / (if vec_length a = 0 then 1 else vec_length a))"

definition applyAxisAngle_y :: "vec3 \<Rightarrow> real \<Rightarrow> vec3" where
  "applyAxisAngle_y a angle =
     \<lparr>vec_x = vec_x a * cos angle + vec_z a * sin angle,
      vec_y = vec_y a,
      vec_z = vec_z a * cos angle - vec_x a * sin angle\<rparr>"

definition distanceToSquared :: "vec3 \<Rightarrow> vec3 \<Rightarrow> real" where
  "distanceToSquared a b =
     (vec_x a - vec_x b) * (vec_x a - vec_x b) + (vec_y a - vec_y b) * (vec_y a - vec_y b)
       + (vec_z a - vec_z b) * (vec_z a - vec_z b)"

definition distanceTo :: "vec3 \<Rightarrow> vec3 \<Rightarrow> real" where
  "distanceTo a b = sqrt (distanceToSquared a b)"

definition origin :: vec3 where
  "origin = \<lparr>vec_x = 0, vec_y = 0, vec_z = 0\<rparr>"

section \<open>The client: state of \<^verbatim>\<open>GameEngine\<close>\<close>

record player_state =
  position :: vec3
  velocity :: vec3
  rotation :: rot2
  isGrounded :: bool
  isSprinting :: bool
  isCrouching :: bool
  height :: real

record control_state =
  forward :: bool
  backward :: bool
  left :: bool
  right :: bool
  jump :: bool
  sprint :: bool
  crouch :: bool

text \<open>An entry of \<^verbatim>\<open>this.bullets\<close>: the mesh's position, the velocity and the start time.\<close>

record local_bullet =
  bullet_position :: vec3
  bullet_velocity :: vec3
  startTime :: int

text \<open>An entry of \<^verbatim>\<open>this.players\<close>: the mesh (position and material colour) and the
  name tag.\<close>

record player_view =
  mesh_position :: vec3
  mesh_color :: nat
  nameTag_position :: vec3
  nameTag_text :: string

text \<open>The objects this part of the engine adds to and removes from the scene, each named
  by the key under which its owner is registered.\<close>

datatype scene_obj = PlayerMesh ident | NameTag ident | BulletMesh ident

record engine =
  player :: player_state
  controls :: control_state
  camera_position :: vec3
  camera_rotation :: rot2
  bullets :: "(ident \<times> local_bullet) list"
  players :: "(ident \<times> player_view) list"
  scene :: "scene_obj list"
  currentPlayerId :: ident
  lastUpdateTime :: int
  isRunning :: bool

record position_report =
  report_position :: vec3
  report_rotation :: rot2

type_synonym hit_event = "ident \<times> ident"

section \<open>The client: \<^verbatim>\<open>updatePlayer\<close>\<close>

text \<open>Handle crouching.\<close>

definition handle_crouch :: "real \<Rightarrow> control_state \<Rightarrow> player_state \<Rightarrow> player_state" where
  "handle_crouch deltaTime c p =
     (let targetHeight = (if crouch c then 12 / 10 else 18 / 10)
      in p\<lparr>height := lerp (height p) targetHeight (deltaTime * 10)\<rparr>)"

text \<open>Movement: the direction built from the four keys.\<close>

definition move_direction :: "control_state \<Rightarrow> vec3" where
  "move_direction c =
     \<lparr>vec_x = 0 - (if left c then 1 else 0) + (if right c then 1 else 0),
      vec_y = 0,
      vec_z = 0 - (if forward c then 1 else 0) + (if backward c then 1 else 0)\<rparr>"

definition handle_movement :: "control_state \<Rightarrow> player_state \<Rightarrow> player_state" where
  "handle_movement c p =
     (let moveSpeed = (if sprint c then 8 else 5);
          direction = move_direction c
      in if vec_length direction > 0
         then (let d = applyAxisAngle_y (vec_normalize direction) (rot_y (rotation p))
               in p\<lparr>velocity := (velocity p)\<lparr>vec_x := vec_x d * moveSpeed,
                                              vec_z := vec_z d * moveSpeed\<rparr>\<rparr>)
         else p\<lparr>velocity := (velocity p)\<lparr>vec_x := vec_x (velocity p) * (8 / 10),
                                        vec_z := vec_z (velocity p) * (8 / 10)\<rparr>\<rparr>)"

text \<open>Jumping.\<close>

definition handle_jump :: "control_state \<Rightarrow> player_state \<Rightarrow> player_state" where
  "handle_jump c p =
     (if jump c \<and> isGrounded p
      then p\<lparr>velocity := (velocity p)\<lparr>vec_y := 8\<rparr>, isGrounded := False\<rparr>
      else p)"

text \<open>Gravity.\<close>

definition apply_gravity :: "real \<Rightarrow> player_state \<Rightarrow> player_state" where
  "apply_gravity deltaTime p =
     (if \<not> isGrounded p
      then p\<lparr>velocity := (velocity p)\<lparr>vec_y := vec_y (velocity p) - 25 * deltaTime\<rparr>\<rparr>
      else p)"

text \<open>Update position.\<close>

definition update_position :: "real \<Rightarrow> player_state \<Rightarrow> player_state" where
  "update_position deltaTime p =
     p\<lparr>position := vec_add (position p) (multiplyScalar (velocity p) deltaTime)\<rparr>"

text \<open>The player as it stands when the ground test is made.\<close>

definition before_ground_collision ::
  "real \<Rightarrow> control_state \<Rightarrow> player_state \<Rightarrow> player_state" where
  "before_ground_collision deltaTime c p =
     update_position deltaTime
       (apply_gravity deltaTime (handle_jump c (handle_movement c (handle_crouch deltaTime c p))))"

text \<open>Ground collision: the test, and the clamp it guards.\<close>

definition on_ground :: "player_state \<Rightarrow> bool" where
  "on_ground p = (vec_y (position p) \<le> height p / 2)"

definition ground_collision :: "player_state \<Rightarrow> player_state" where
  "ground_collision p =
     (if on_ground p
      then p\<lparr>position := (position p)\<lparr>vec_y := height p / 2\<rparr>,
             velocity := (velocity p)\<lparr>vec_y := 0\<rparr>,
             isGrounded := True\<rparr>
      else p)"

text \<open>Boundary collision.\<close>

definition boundary_collision :: "player_state \<Rightarrow> player_state" where
  "boundary_collision p =
     p\<lparr>position := (position p)\<lparr>vec_x := max (- 49) (min 49 (vec_x (position p))),
                                  vec_z := max (- 49) (min 49 (vec_z (position p)))\<rparr>\<rparr>"

definition integrate_player :: "real \<Rightarrow> control_state \<Rightarrow> player_state \<Rightarrow> player_state" where
  "integrate_player deltaTime c p =
     boundary_collision (ground_collision (before_ground_collision deltaTime c p))"

text \<open>\<^verbatim>\<open>updatePlayer(deltaTime)\<close>, with the reading \<open>now\<close> of \<^verbatim>\<open>Date.now()\<close>. The second
  component is the argument of \<^verbatim>\<open>onPositionUpdate\<close> when the callback is called.\<close>

definition updatePlayer :: "real \<Rightarrow> int \<Rightarrow> engine \<Rightarrow> engine \<times> position_report option" where
  "updatePlayer deltaTime now s =
     (let p = integrate_player deltaTime (controls s) (player s);
          s1 = s\<lparr>player := p, camera_position := position p, camera_rotation := rotation p\<rparr>
      in if now - lastUpdateTime s > 50
         then (s1\<lparr>lastUpdateTime := now\<rparr>,
               Some \<lparr>report_position = position p, report_rotation = rotation p\<rparr>)
         else (s1, None))"

section \<open>The client: \<^verbatim>\<open>updateBullets\<close>\<close>

text \<open>The bounds check on a bullet's position.\<close>

definition out_of_bounds :: "vec3 \<Rightarrow> bool" where
  "out_of_bounds q = (\<bar>vec_x q\<bar> > 50 \<or> \<bar>vec_z q\<bar> > 50 \<or> vec_y q < 0 \<or> vec_y q > 10)"

text \<open>The inner \<^verbatim>\<open>this.players.forEach\<close>: the players for which \<^verbatim>\<open>onHit\<close> is called, in
  the order of the iteration.\<close>

fun hit_players :: "ident \<Rightarrow> vec3 \<Rightarrow> (ident \<times> player_view) list \<Rightarrow> ident list" where
  "hit_players cur bulletPosition [] = []"
| "hit_players cur bulletPosition ((playerId, playerObj) # rest) =
     (if playerId = cur then hit_players cur bulletPosition rest
      else if distanceTo bulletPosition (mesh_position playerObj) < 1 / 2
           then playerId # hit_players cur bulletPosition rest
           else hit_players cur bulletPosition rest)"

text \<open>The outer \<^verbatim>\<open>this.bullets.forEach\<close>: the bullets with their positions advanced, the
  list \<^verbatim>\<open>bulletsToRemove\<close> and the calls of \<^verbatim>\<open>onHit\<close>.\<close>

definition advance_bullet :: "real \<Rightarrow> local_bullet \<Rightarrow> local_bullet" where
  "advance_bullet deltaTime b =
     b\<lparr>bullet_position := vec_add (bullet_position b) (multiplyScalar (bullet_velocity b) deltaTime)\<rparr>"

fun bullets_forEach ::
  "real \<Rightarrow> int \<Rightarrow> ident \<Rightarrow> (ident \<times> player_view) list \<Rightarrow> (ident \<times> local_bullet) list
     \<Rightarrow> (ident \<times> local_bullet) list \<times> ident list \<times> hit_event list" where
  "bullets_forEach deltaTime now cur ps [] = ([], [], [])"
| "bullets_forEach deltaTime now cur ps ((bid, bullet) # rest) =
     (let b = advance_bullet deltaTime bullet;
          old = (if now - startTime b > 5000 then [bid] else []);
          out = (if out_of_bounds (bullet_position b) then [bid] else []);
          victims = hit_players cur (bullet_position b) ps
      in case bullets_forEach deltaTime now cur ps rest of
           (bs, bulletsToRemove, hits) \<Rightarrow>
             ((bid, b) # bs,
              old @ out @ map (\<lambda>_. bid) victims @ bulletsToRemove,
              map (Pair bid) victims @ hits))"

text \<open>\<^verbatim>\<open>bulletsToRemove.forEach\<close>.\<close>

fun remove_bullets :: "ident list \<Rightarrow> engine \<Rightarrow> engine" where
  "remove_bullets [] s = s"
| "remove_bullets (bid # bids) s =
     remove_bullets bids
       (case map_of (bullets s) bid of
          None \<Rightarrow> s
        | Some _ \<Rightarrow> s\<lparr>scene := remove1 (BulletMesh bid) (scene s),
                       bullets := AList.delete bid (bullets s)\<rparr>)"

definition updateBullets :: "real \<Rightarrow> int \<Rightarrow> engine \<Rightarrow> engine \<times> hit_event list" where
  "updateBullets deltaTime now s =
     (case bullets_forEach deltaTime now (currentPlayerId s) (players s) (bullets s) of
        (bs, bulletsToRemove, hits) \<Rightarrow> (remove_bullets bulletsToRemove (s\<lparr>bullets := bs\<rparr>), hits))"

section \<open>The client: \<^verbatim>\<open>updateGameState\<close>\<close>

text \<open>A snapshot as \<^verbatim>\<open>getGameState\<close> returns it: the documents with their identifiers.
  The engine reads the fields \<^verbatim>\<open>players\<close> and \<^verbatim>\<open>bullets\<close> through \<^verbatim>\<open>?.\<close>, so either may be
  undefined.\<close>

record game_state =
  gs_players :: "(ident \<times> player_doc) list option"
  gs_bullets :: "(ident \<times> bullet_doc) list option"

definition alive_color :: "bool \<Rightarrow> nat" where
  "alive_color alive = (if alive then 26367 else 6710886)"

text \<open>Update other players: the body of the first loop.\<close>

definition update_remote_player :: "engine \<Rightarrow> ident \<times> player_doc \<Rightarrow> engine" where
  "update_remote_player s e =
     (case e of (pid, d) \<Rightarrow>
        if pid = currentPlayerId s then s
        else
          (let s1 = (case map_of (players s) pid of
                       Some _ \<Rightarrow> s
                     | None \<Rightarrow>
                         s\<lparr>scene := scene s @ [PlayerMesh pid, NameTag pid],
                           players := AList.update pid
                             \<lparr>mesh_position = origin, mesh_color = alive_color (p_isAlive d),
                              nameTag_position = origin, nameTag_text = p_username d\<rparr>
                             (players s)\<rparr>)
           in s1\<lparr>players :=
                   AList.map_entry pid
                     (\<lambda>h. h\<lparr>mesh_position := p_position d,
                             nameTag_position := vec_add (p_position d)
                                                   \<lparr>vec_x = 0, vec_y = 15 / 10, vec_z = 0\<rparr>,
                             mesh_color := alive_color (p_isAlive d)\<rparr>)
                     (players s1)\<rparr>))"

text \<open>Remove disconnected players: the body of the second loop.\<close>

definition listed :: "game_state \<Rightarrow> ident \<Rightarrow> bool" where
  "listed gameState pid =
     (case gs_players gameState of
        None \<Rightarrow> False
      | Some ps \<Rightarrow> find (\<lambda>p. fst p = pid) ps \<noteq> None)"

definition remove_disconnected :: "game_state \<Rightarrow> engine \<Rightarrow> ident \<times> player_view \<Rightarrow> engine" where
  "remove_disconnected gameState s e =
     (case e of (pid, playerObj) \<Rightarrow>
        if \<not> listed gameState pid
        then s\<lparr>scene := remove1 (NameTag pid) (remove1 (PlayerMesh pid) (scene s)),
               players := AList.delete pid (players s)\<rparr>
        else s)"

text \<open>Update bullets: the body of the third loop.\<close>

definition add_bullet :: "engine \<Rightarrow> ident \<times> bullet_doc \<Rightarrow> engine" where
  "add_bullet s e =
     (case e of (bid, d) \<Rightarrow>
        (case map_of (bullets s) bid of
           Some _ \<Rightarrow> s
         | None \<Rightarrow>
             s\<lparr>scene := scene s @ [BulletMesh bid],
               bullets := AList.update bid
                 \<lparr>bullet_position = b_startPosition d,
                  bullet_velocity = multiplyScalar (b_direction d) (b_speed d),
                  startTime = b_timestamp d\<rparr>
                 (bullets s)\<rparr>))"

text \<open>\<^verbatim>\<open>updateGameState(gameState)\<close>; \<open>None\<close> is a null or undefined argument. A loop over
  an undefined field is skipped. The second loop visits the entries that \<^verbatim>\<open>this.players\<close>
  holds when it starts and deletes none but the entry it is visiting.\<close>

definition updateGameState :: "game_state option \<Rightarrow> engine \<Rightarrow> engine" where
  "updateGameState g s =
     (case g of
        None \<Rightarrow> s
      | Some gameState \<Rightarrow>
          (let s1 = foldl update_remote_player s
                      (case gs_players gameState of None \<Rightarrow> [] | Some ps \<Rightarrow> ps);
               s2 = foldl (remove_disconnected gameState) s1 (players s1)
           in foldl add_bullet s2
                (case gs_bullets gameState of None \<Rightarrow> [] | Some bs \<Rightarrow> bs)))"

section \<open>The client: the frame loop\<close>

text \<open>\<^verbatim>\<open>animate\<close>: \<open>deltaTime\<close> is what \<^verbatim>\<open>this.clock.getDelta()\<close> returned for this
  frame.\<close>

definition animate ::
  "real \<Rightarrow> int \<Rightarrow> engine \<Rightarrow> engine \<times> position_report option \<times> hit_event list" where
  "animate deltaTime now s =
     (if \<not> isRunning s then (s, None, [])
      else (case updatePlayer deltaTime now s of
              (s1, report) \<Rightarrow>
                (case updateBullets deltaTime now s1 of
                   (s2, hits) \<Rightarrow> (s2, report, hits))))"

text \<open>A run of player updates: before each, the key handlers have left the controls \<open>c\<close>.\<close>

type_synonym tick = "real \<times> int \<times> control_state"

fun ticks :: "tick list \<Rightarrow> engine \<Rightarrow> engine" where
  "ticks [] s = s"
| "ticks ((deltaTime, now, c) # ts) s =
     ticks ts (fst (updatePlayer deltaTime now (s\<lparr>controls := c\<rparr>)))"

section \<open>Concrete states used in the examples\<close>

definition example_player :: "string \<Rightarrow> real \<Rightarrow> bool \<Rightarrow> player_doc" where
  "example_player name hp alive =
     \<lparr>p_gameId = ''g1'', p_userId = None, p_username = name,
      p_position = \<lparr>vec_x = 0, vec_y = 1, vec_z = 0\<rparr>, p_rotation = \<lparr>rot_x = 0, rot_y = 0\<rparr>,
      p_health = hp, p_maxHealth = 100, p_kills = 0, p_deaths = 0, p_isAlive = alive,
      p_lastUpdate = 0\<rparr>"

definition example_bullet :: "ident \<Rightarrow> bullet_doc" where
  "example_bullet shooter =
     \<lparr>b_gameId = ''g1'', b_playerId = shooter,
      b_startPosition = \<lparr>vec_x = 0, vec_y = 1, vec_z = 0\<rparr>,
      b_direction = \<lparr>vec_x = 0, vec_y = 0, vec_z = - 1\<rparr>,
      b_speed = 100, b_damage = 25, b_timestamp = 0\<rparr>"

text \<open>Three players (the third dead) and two bullets, the second fired by a player whose
  document is gone.\<close>

definition example_db :: database where
  "example_db =
     \<lparr>players_table = [''p1'' \<mapsto> example_player ''ann'' 100 True,
                        ''p2'' \<mapsto> example_player ''bob'' 25 True,
                        ''p3'' \<mapsto> example_player ''cy'' 0 False],
      bullets_table = [''b1'' \<mapsto> example_bullet ''p1'', ''b2'' \<mapsto> example_bullet ''gone''],
      kills_table = []\<rparr>"

text \<open>The engine as the field initialisers and \<^verbatim>\<open>setupPlayer\<close> leave it.\<close>

definition no_controls :: control_state where
  "no_controls =
     \<lparr>forward = False, backward = False, left = False, right = False, jump = False,
      sprint = False, crouch = False\<rparr>"

definition initial_engine :: engine where
  "initial_engine =
     \<lparr>player =
        \<lparr>position = \<lparr>vec_x = 0, vec_y = 18 / 10, vec_z = 0\<rparr>, velocity = origin,
         rotation = \<lparr>rot_x = 0, rot_y = 0\<rparr>, isGrounded = True, isSprinting = False,
         isCrouching = False, height = 18 / 10\<rparr>,
      controls = no_controls,
      camera_position = \<lparr>vec_x = 0, vec_y = 18 / 10, vec_z = 0\<rparr>,
      camera_rotation = \<lparr>rot_x = 0, rot_y = 0\<rparr>,
      bullets = [], players = [], scene = [], currentPlayerId = [], lastUpdateTime = 0,
      isRunning = False\<rparr>"

text \<open>The player of the end-to-end scenario: at \<open>(0, 0.9, 0)\<close>, height \<open>1.8\<close>, falling at
  one unit a second, with either value of the grounded flag.\<close>

definition scenario_player :: "bool \<Rightarrow> player_state" where
  "scenario_player g =
     \<lparr>position = \<lparr>vec_x = 0, vec_y = 9 / 10, vec_z = 0\<rparr>,
      velocity = \<lparr>vec_x = 0, vec_y = - 1, vec_z = 0\<rparr>,
      rotation = \<lparr>rot_x = 0, rot_y = 0\<rparr>, isGrounded = g, isSprinting = False,
      isCrouching = False, height = 18 / 10\<rparr>"

text \<open>The initial engine with the space bar held.\<close>

definition jump_engine :: engine where
  "jump_engine = initial_engine\<lparr>controls := no_controls\<lparr>jump := True\<rparr>\<rparr>"

text \<open>The initial engine, running, with the forward key held.\<close>

definition forward_engine :: engine where
  "forward_engine =
     initial_engine\<lparr>controls := no_controls\<lparr>forward := True\<rparr>, isRunning := True\<rparr>"

text \<open>The engine of player \<open>p1\<close>; a snapshot with a second player and one with the second
  player gone, both listing the bullet \<open>b1\<close>.\<close>

definition own_engine :: engine where
  "own_engine = initial_engine\<lparr>currentPlayerId := ''p1''\<rparr>"

definition snapshot_two :: game_state where
  "snapshot_two =
     \<lparr>gs_players = Some [(''p1'', example_player ''ann'' 100 True),
                         (''p2'', example_player ''bob'' 25 True)],
      gs_bullets = Some [(''b1'', example_bullet ''p1'')]\<rparr>"

definition snapshot_one :: game_state where
  "snapshot_one =
     \<lparr>gs_players = Some [(''p1'', example_player ''ann'' 100 True)],
      gs_bullets = Some [(''b1'', example_bullet ''p1'')]\<rparr>"

text \<open>A bullet about to pass between two remote players, each 0.1 units off its path.\<close>

definition player_view_at :: "real \<Rightarrow> real \<Rightarrow> real \<Rightarrow> player_view" where
  "player_view_at a b c =
     \<lparr>mesh_position = \<lparr>vec_x = a, vec_y = b, vec_z = c\<rparr>, mesh_color = 26367,
      nameTag_position = \<lparr>vec_x = a, vec_y = b + 15 / 10, vec_z = c\<rparr>, nameTag_text = ''bob''\<rparr>"

definition crowded_engine :: engine where
  "crowded_engine =
     own_engine
       \<lparr>bullets := [(''b1'', \<lparr>bullet_position = \<lparr>vec_x = 0, vec_y = 1, vec_z = 0\<rparr>,
                              bullet_velocity = \<lparr>vec_x = 0, vec_y = 0, vec_z = - 100\<rparr>,
                              startTime = 0\<rparr>)],
        players := [(''p2'', player_view_at (1 / 10) 1 (- 1)),
                    (''p3'', player_view_at (- (1 / 10)) 1 (- 1))],
        scene := [BulletMesh ''b1'', PlayerMesh ''p2'', NameTag ''p2'', PlayerMesh ''p3'',
                  NameTag ''p3'']\<rparr>"

text \<open>The initial engine, running, with the space bar and the crouch key held.\<close>

definition stalled_engine :: engine where
  "stalled_engine =
     initial_engine\<lparr>controls := no_controls\<lparr>jump := True, crouch := True\<rparr>, isRunning := True\<rparr>"

section \<open>Properties of runs\<close>

text \<open>A horizontal position inside the arena's clamp.\<close>

definition in_arena :: "vec3 \<Rightarrow> bool" where
  "in_arena q = (- 49 \<le> vec_x q \<and> vec_x q \<le> 49 \<and> - 49 \<le> vec_z q \<and> vec_z q \<le> 49)"

text \<open>A run in which the ground test fails at every tick.\<close>

fun airborne_run :: "tick list \<Rightarrow> engine \<Rightarrow> bool" where
  "airborne_run [] s = True"
| "airborne_run ((deltaTime, now, c) # ts) s =
     (\<not> on_ground (before_ground_collision deltaTime c (player s)) \<and>
      airborne_run ts (fst (updatePlayer deltaTime now (s\<lparr>controls := c\<rparr>))))"

text \<open>The times at which a run calls \<^verbatim>\<open>onPositionUpdate\<close>, and the test that each is more
  than 50 ms after the one before (the first after \<open>prev\<close>).\<close>

fun report_times :: "tick list \<Rightarrow> engine \<Rightarrow> int list" where
  "report_times [] s = []"
| "report_times ((deltaTime, now, c) # ts) s =
     (case updatePlayer deltaTime now (s\<lparr>controls := c\<rparr>) of
        (s', None) \<Rightarrow> report_times ts s'
      | (s', Some _) \<Rightarrow> now # report_times ts s')"

fun spaced :: "int \<Rightarrow> int list \<Rightarrow> bool" where
  "spaced prev [] = True"
| "spaced prev (t # ts) = (t - prev > 50 \<and> spaced t ts)"

text \<open>The three reasons for which \<^verbatim>\<open>updateBullets\<close> puts a bullet on its removal list: its
  age, its position after the advance, and a player within the collision threshold.\<close>

definition doomed ::
  "real \<Rightarrow> int \<Rightarrow> ident \<Rightarrow> (ident \<times> player_view) list \<Rightarrow> local_bullet \<Rightarrow> bool" where
  "doomed deltaTime now cur ps bullet =
     (now - startTime bullet > 5000 \<or>
      out_of_bounds (bullet_position (advance_bullet deltaTime bullet)) \<or>
      hit_players cur (bullet_position (advance_bullet deltaTime bullet)) ps \<noteq> [])"

text \<open>The lists the loops of \<^verbatim>\<open>updateGameState\<close> run over, and the bullet its third loop
  stores for a document.\<close>

definition snapshot_players :: "game_state \<Rightarrow> (ident \<times> player_doc) list" where
  "snapshot_players g = (case gs_players g of None \<Rightarrow> [] | Some ps \<Rightarrow> ps)"

definition snapshot_bullets :: "game_state \<Rightarrow> (ident \<times> bullet_doc) list" where
  "snapshot_bullets g = (case gs_bullets g of None \<Rightarrow> [] | Some bs \<Rightarrow> bs)"

definition seeded_bullet :: "bullet_doc \<Rightarrow> local_bullet" where
  "seeded_bullet d =
     \<lparr>bullet_position = b_startPosition d,
      bullet_velocity = multiplyScalar (b_direction d) (b_speed d),
      startTime = b_timestamp d\<rparr>"

section \<open>Facts about \<^verbatim>\<open>hitPlayer\<close>\<close>

lemma hitPlayer_valid:
  assumes "bullets_table db bid = Some b" and "players_table db vid = Some v"
    and "players_table db (b_playerId b) = Some sh" and "p_isAlive v"
  shows "hitPlayer now bid vid db = apply_hit now bid vid b v sh db"
  using assms by (simp add: hitPlayer_def)

lemma apply_hit_dead:
  assumes "bullets_table db bid = Some b" and "players_table db vid = Some v"
    and "players_table db (b_playerId b) = Some sh"
    and "max 0 (p_health v - b_damage b) \<le> 0"
  shows "apply_hit now bid vid b v sh db =
     Inr (Some \<lparr>hit = True, damage = b_damage b, killed = True\<rparr>,
          db\<lparr>players_table :=
               ((players_table db)
                  (vid \<mapsto> v\<lparr>p_health := max 0 (p_health v - b_damage b), p_isAlive := False,
                             p_deaths := p_deaths v + 1\<rparr>))
                  (b_playerId b \<mapsto>
                     (if b_playerId b = vid
                      then v\<lparr>p_health := max 0 (p_health v - b_damage b), p_isAlive := False,
                             p_deaths := p_deaths v + 1\<rparr>
                      else sh)\<lparr>p_kills := p_kills sh + 1\<rparr>),
             kills_table := kills_table db @
               [\<lparr>k_gameId = p_gameId v, k_killerId = b_playerId b, k_victimId = vid,
                 k_killerName = p_username sh, k_victimName = p_username v,
                 k_weapon = ''rifle'', k_timestamp = now\<rparr>],
             bullets_table := (bullets_table db)(bid := None)\<rparr>)"
  using assms
  by (simp add: apply_hit_def patch_player_def insert_kill_def delete_bullet_def Let_def)

lemma apply_hit_alive:
  assumes "bullets_table db bid = Some b" and "players_table db vid = Some v"
    and "players_table db (b_playerId b) = Some sh"
    and "\<not> max 0 (p_health v - b_damage b) \<le> 0"
  shows "apply_hit now bid vid b v sh db =
     Inr (Some \<lparr>hit = True, damage = b_damage b, killed = False\<rparr>,
          db\<lparr>players_table :=
               (players_table db)
                 (vid \<mapsto> v\<lparr>p_health := max 0 (p_health v - b_damage b), p_isAlive := True,
                            p_deaths := p_deaths v\<rparr>),
             bullets_table := (bullets_table db)(bid := None)\<rparr>)"
  using assms
  by (simp add: apply_hit_def patch_player_def insert_kill_def delete_bullet_def Let_def)

text \<open>
  Claim C9. A hit report whose bullet is unknown, whose victim is unknown, whose shooter's
  document is missing or whose victim is not alive returns null and leaves the database
  as it was. Every other hit report returns \<open>{hit: true, damage, killed}\<close> with the bullet's
  damage, deletes the bullet's document, leaves the victim with the health
  \<open>max 0 (health - damage)\<close>, and appends at most one entry to the kills table.
\<close>

theorem hitPlayer_null_or_result:
  "(bullets_table db bid = None \<or> players_table db vid = None \<or>
     (\<exists>b. bullets_table db bid = Some b \<and> players_table db (b_playerId b) = None) \<or>
     (\<exists>v. players_table db vid = Some v \<and> \<not> p_isAlive v)
      \<longrightarrow> hitPlayer now bid vid db = Inr (None, db)) \<and>
   (\<forall>b v sh. bullets_table db bid = Some b \<and> players_table db vid = Some v \<and>
        players_table db (b_playerId b) = Some sh \<and> p_isAlive v \<longrightarrow>
      (\<exists>k db'. hitPlayer now bid vid db =
                  Inr (Some \<lparr>hit = True, damage = b_damage b, killed = k\<rparr>, db') \<and>
         bullets_table db' = (bullets_table db)(bid := None) \<and>
         (\<exists>v'. players_table db' vid = Some v' \<and>
                p_health v' = max 0 (p_health v - b_damage b)) \<and>
         (kills_table db' = kills_table db \<or> (\<exists>e. kills_table db' = kills_table db @ [e]))))"
proof (intro conjI impI allI)
  assume "bullets_table db bid = None \<or> players_table db vid = None \<or>
     (\<exists>b. bullets_table db bid = Some b \<and> players_table db (b_playerId b) = None) \<or>
     (\<exists>v. players_table db vid = Some v \<and> \<not> p_isAlive v)"
  then show "hitPlayer now bid vid db = Inr (None, db)"
    by (auto simp: hitPlayer_def Let_def split: option.splits)
next
  fix b v sh
  assume a: "bullets_table db bid = Some b \<and> players_table db vid = Some v \<and>
        players_table db (b_playerId b) = Some sh \<and> p_isAlive v"
  then have h: "hitPlayer now bid vid db = apply_hit now bid vid b v sh db"
    by (simp add: hitPlayer_valid)
  show "\<exists>k db'. hitPlayer now bid vid db =
                  Inr (Some \<lparr>hit = True, damage = b_damage b, killed = k\<rparr>, db') \<and>
         bullets_table db' = (bullets_table db)(bid := None) \<and>
         (\<exists>v'. players_table db' vid = Some v' \<and>
                p_health v' = max 0 (p_health v - b_damage b)) \<and>
         (kills_table db' = kills_table db \<or> (\<exists>e. kills_table db' = kills_table db @ [e]))"
  proof (cases "max 0 (p_health v - b_damage b) \<le> 0")
    case True
    with a show ?thesis unfolding h by (auto simp: apply_hit_dead)
  next
    case False
    with a show ?thesis unfolding h by (auto simp: apply_hit_alive)
  qed
qed

theorem hitPlayer_null_or_result_witness:
  "hitPlayer 9 ''zz'' ''p2'' example_db = Inr (None, example_db) \<and>
   hitPlayer 9 ''b1'' ''zz'' example_db = Inr (None, example_db) \<and>
   hitPlayer 9 ''b2'' ''p2'' example_db = Inr (None, example_db) \<and>
   hitPlayer 9 ''b1'' ''p3'' example_db = Inr (None, example_db) \<and>
   (\<exists>k db'. hitPlayer 9 ''b1'' ''p2'' example_db =
               Inr (Some \<lparr>hit = True, damage = 25, killed = k\<rparr>, db') \<and>
      bullets_table db' ''b1'' = None \<and>
      (\<exists>v'. players_table db' ''p2'' = Some v' \<and> p_health v' = 0))"
proof -
  have 1: "hitPlayer 9 ''zz'' ''p2'' example_db = Inr (None, example_db)"
    using hitPlayer_null_or_result [of example_db "''zz''" "''p2''" 9]
    by (simp add: example_db_def)
  have 2: "hitPlayer 9 ''b1'' ''zz'' example_db = Inr (None, example_db)"
    using hitPlayer_null_or_result [of example_db "''b1''" "''zz''" 9]
    by (simp add: example_db_def)
  have 3: "hitPlayer 9 ''b2'' ''p2'' example_db = Inr (None, example_db)"
    using hitPlayer_null_or_result [of example_db "''b2''" "''p2''" 9]
    by (simp add: example_db_def example_bullet_def)
  have 4: "hitPlayer 9 ''b1'' ''p3'' example_db = Inr (None, example_db)"
    using hitPlayer_null_or_result [of example_db "''b1''" "''p3''" 9]
    by (simp add: example_db_def example_player_def)
  have 5: "\<exists>k db'. hitPlayer 9 ''b1'' ''p2'' example_db =
               Inr (Some \<lparr>hit = True, damage = 25, killed = k\<rparr>, db') \<and>
      bullets_table db' ''b1'' = None \<and>
      (\<exists>v'. players_table db' ''p2'' = Some v' \<and> p_health v' = 0)"
    using hitPlayer_null_or_result [of example_db "''b1''" "''p2''" 9, THEN conjunct2,
        rule_format, of "example_bullet ''p1''" "example_player ''bob'' 25 True"
        "example_player ''ann'' 100 True"]
    by (auto simp: example_db_def example_player_def example_bullet_def)
  from 1 2 3 4 5 show ?thesis by blast
qed

text \<open>
  Claim C10. When \<^verbatim>\<open>hitPlayer\<close> applies a hit, the victim's new health is
  \<open>max 0 (health - damage)\<close> and so is not negative; \<open>killed\<close> is true, the shooter's kill
  count goes up by one and a kill entry is appended exactly when that new health is 0;
  otherwise the kill count and the kills table are as before.
\<close>

theorem hitPlayer_health_and_kill:
  assumes "bullets_table db bid = Some b" and "players_table db vid = Some v"
    and "players_table db (b_playerId b) = Some sh" and "p_isAlive v"
  shows "\<exists>r db' v' sh'.
           hitPlayer now bid vid db = Inr (Some r, db') \<and>
           players_table db' vid = Some v' \<and>
           players_table db' (b_playerId b) = Some sh' \<and>
           p_health v' = max 0 (p_health v - b_damage b) \<and>
           0 \<le> p_health v' \<and>
           (killed r \<longleftrightarrow> p_health v' = 0) \<and>
           p_kills sh' = (if p_health v' = 0 then p_kills sh + 1 else p_kills sh) \<and>
           kills_table db' =
             (if p_health v' = 0
              then kills_table db @
                     [\<lparr>k_gameId = p_gameId v, k_killerId = b_playerId b, k_victimId = vid,
                       k_killerName = p_username sh, k_victimName = p_username v,
                       k_weapon = ''rifle'', k_timestamp = now\<rparr>]
              else kills_table db)"
proof -
  have h: "hitPlayer now bid vid db = apply_hit now bid vid b v sh db"
    using assms by (rule hitPlayer_valid)
  show ?thesis
  proof (cases "max 0 (p_health v - b_damage b) \<le> 0")
    case True
    then have z: "max 0 (p_health v - b_damage b) = 0" by simp
    from True assms(1-3) show ?thesis
      unfolding h by (auto simp: apply_hit_dead z)
  next
    case False
    with assms show ?thesis
      unfolding h by (auto simp: apply_hit_alive)
  qed
qed

theorem hitPlayer_health_and_kill_witness:
  "(\<exists>r db' v' sh'.
      hitPlayer 9 ''b1'' ''p2'' example_db = Inr (Some r, db') \<and>
      players_table db' ''p2'' = Some v' \<and> players_table db' ''p1'' = Some sh' \<and>
      p_health v' = 0 \<and> killed r \<and> p_kills sh' = 1 \<and> length (kills_table db') = 1) \<and>
   (\<exists>r db' v' sh'.
      hitPlayer 9 ''b1'' ''p1'' example_db = Inr (Some r, db') \<and>
      players_table db' ''p1'' = Some v' \<and> players_table db' ''p1'' = Some sh' \<and>
      p_health v' = 75 \<and> \<not> killed r \<and> p_kills sh' = 0 \<and> kills_table db' = [])"
proof -
  have 1: "\<exists>r db' v' sh'.
      hitPlayer 9 ''b1'' ''p2'' example_db = Inr (Some r, db') \<and>
      players_table db' ''p2'' = Some v' \<and> players_table db' ''p1'' = Some sh' \<and>
      p_health v' = 0 \<and> killed r \<and> p_kills sh' = 1 \<and> length (kills_table db') = 1"
    using hitPlayer_health_and_kill [of example_db "''b1''" "example_bullet ''p1''" "''p2''"
        "example_player ''bob'' 25 True" "example_player ''ann'' 100 True" 9]
    by (auto simp: example_db_def example_player_def example_bullet_def)
  have 2: "\<exists>r db' v' sh'.
      hitPlayer 9 ''b1'' ''p1'' example_db = Inr (Some r, db') \<and>
      players_table db' ''p1'' = Some v' \<and> players_table db' ''p1'' = Some sh' \<and>
      p_health v' = 75 \<and> \<not> killed r \<and> p_kills sh' = 0 \<and> kills_table db' = []"
    using hitPlayer_health_and_kill [of example_db "''b1''" "example_bullet ''p1''" "''p1''"
        "example_player ''ann'' 100 True" "example_player ''ann'' 100 True" 9]
    by (auto simp: example_db_def example_player_def example_bullet_def)
  from 1 2 show ?thesis by blast
qed

section \<open>Facts about \<^verbatim>\<open>updatePlayer\<close> and \<^verbatim>\<open>animate\<close>\<close>

lemma integrate_in_arena: "in_arena (position (integrate_player dt c p))"
  by (simp add: integrate_player_def boundary_collision_def in_arena_def)

lemma updatePlayer_player:
  "player (fst (updatePlayer dt now s)) = integrate_player dt (controls s) (player s)"
  by (simp add: updatePlayer_def Let_def)

text \<open>
  Claim C1. After a call of \<^verbatim>\<open>updatePlayer\<close>, whatever the elapsed time and the controls,
  the player's \<open>x\<close> and \<open>z\<close> lie in \<open>[-49, 49]\<close>; and a run of any number of calls that
  starts inside that square ends inside it.
\<close>

theorem position_stays_in_arena:
  "in_arena (position (player (fst (updatePlayer dt now s)))) \<and>
   (in_arena (position (player s)) \<longrightarrow> in_arena (position (player (ticks ts s))))"
proof
  show "in_arena (position (player (fst (updatePlayer dt now s))))"
    by (simp add: updatePlayer_player integrate_in_arena)
  show "in_arena (position (player s)) \<longrightarrow> in_arena (position (player (ticks ts s)))"
  proof (induction ts arbitrary: s)
    case Nil
    show ?case by simp
  next
    case (Cons t ts)
    obtain d n c where t: "t = (d, n, c)" by (cases t)
    have "in_arena (position (player (fst (updatePlayer d n (s\<lparr>controls := c\<rparr>)))))"
      by (simp add: updatePlayer_player integrate_in_arena)
    with Cons.IH show ?case by (simp add: t)
  qed
qed

theorem position_stays_in_arena_witness:
  "in_arena (position (player initial_engine)) \<and>
   in_arena (position (player (fst (updatePlayer 30 16 (initial_engine\<lparr>controls := no_controls\<lparr>forward := True, sprint := True\<rparr>\<rparr>))))) \<and>
   in_arena (position (player (ticks [(1 / 60, 16, no_controls\<lparr>forward := True\<rparr>),
                                      (1 / 60, 33, no_controls)] initial_engine)))"
  using position_stays_in_arena [of 30 16 "initial_engine\<lparr>controls := no_controls\<lparr>forward := True, sprint := True\<rparr>\<rparr>" "[]"]
    position_stays_in_arena [of 30 16 initial_engine
      "[(1 / 60, 16, no_controls\<lparr>forward := True\<rparr>), (1 / 60, 33, no_controls)]"]
  by (simp add: initial_engine_def in_arena_def)

text \<open>
  Claim C8. The end-to-end scenario: from \<open>(0, 0.9, 0)\<close> with height \<open>1.8\<close>, velocity
  \<open>(0, -1, 0)\<close> and no input, one call with \<open>deltaTime = 0.1\<close> reaches the ground test with
  \<open>y \<le> 0.9\<close> and ends at \<open>y = height / 2 = 0.9\<close> with no vertical velocity and the
  grounded flag set, whichever value the flag had.
\<close>

theorem ground_clamp_scenario:
  "vec_y (position (before_ground_collision (1 / 10) no_controls (scenario_player g))) \<le> 9 / 10 \<and>
   position (player (fst (updatePlayer (1 / 10) now
       (s\<lparr>player := scenario_player g, controls := no_controls\<rparr>)))) =
     \<lparr>vec_x = 0, vec_y = 9 / 10, vec_z = 0\<rparr> \<and>
   height (player (fst (updatePlayer (1 / 10) now
       (s\<lparr>player := scenario_player g, controls := no_controls\<rparr>)))) / 2 = 9 / 10 \<and>
   vec_y (velocity (player (fst (updatePlayer (1 / 10) now
       (s\<lparr>player := scenario_player g, controls := no_controls\<rparr>))))) = 0 \<and>
   isGrounded (player (fst (updatePlayer (1 / 10) now
       (s\<lparr>player := scenario_player g, controls := no_controls\<rparr>))))"
  by (simp add: updatePlayer_player integrate_player_def boundary_collision_def
      ground_collision_def on_ground_def before_ground_collision_def update_position_def
      apply_gravity_def handle_jump_def handle_movement_def handle_crouch_def move_direction_def
      vec_length_def lerp_def vec_add_def multiplyScalar_def no_controls_def scenario_player_def Let_def)

lemma handle_crouch_fields:
  "isGrounded (handle_crouch dt c p) = isGrounded p"
  "velocity (handle_crouch dt c p) = velocity p"
  "position (handle_crouch dt c p) = position p"
  by (simp_all add: handle_crouch_def Let_def)

lemma handle_movement_fields:
  "isGrounded (handle_movement c p) = isGrounded p"
  "vec_y (velocity (handle_movement c p)) = vec_y (velocity p)"
  "position (handle_movement c p) = position p"
  "height (handle_movement c p) = height p"
  by (simp_all add: handle_movement_def Let_def)

lemma handle_jump_fields:
  "isGrounded (handle_jump c p) = (isGrounded p \<and> \<not> jump c)"
  "vec_y (velocity (handle_jump c p)) = (if jump c \<and> isGrounded p then 8 else vec_y (velocity p))"
  "position (handle_jump c p) = position p"
  "height (handle_jump c p) = height p"
  by (auto simp: handle_jump_def)

lemma apply_gravity_fields:
  "isGrounded (apply_gravity dt p) = isGrounded p"
  "vec_y (velocity (apply_gravity dt p)) =
     (if isGrounded p then vec_y (velocity p) else vec_y (velocity p) - 25 * dt)"
  "position (apply_gravity dt p) = position p"
  "height (apply_gravity dt p) = height p"
  by (simp_all add: apply_gravity_def)

lemma update_position_fields:
  "isGrounded (update_position dt p) = isGrounded p"
  "velocity (update_position dt p) = velocity p"
  "height (update_position dt p) = height p"
  "position (update_position dt p) = vec_add (position p) (multiplyScalar (velocity p) dt)"
  by (simp_all add: update_position_def)

lemma before_ground_collision_grounded:
  "isGrounded (before_ground_collision dt c p) = (isGrounded p \<and> \<not> jump c)"
  by (simp add: before_ground_collision_def update_position_fields apply_gravity_fields
      handle_jump_fields handle_movement_fields handle_crouch_fields)

lemma before_ground_collision_velocity_y:
  "vec_y (velocity (before_ground_collision dt c p)) =
     (if jump c \<and> isGrounded p then 8 - 25 * dt
      else if isGrounded p then vec_y (velocity p)
      else vec_y (velocity p) - 25 * dt)"
  by (simp add: before_ground_collision_def update_position_fields apply_gravity_fields
      handle_jump_fields handle_movement_fields handle_crouch_fields)

lemma integrate_on_ground:
  "on_ground (before_ground_collision dt c p) \<Longrightarrow>
     vec_y (velocity (integrate_player dt c p)) = 0 \<and> isGrounded (integrate_player dt c p)"
  by (simp add: integrate_player_def boundary_collision_def ground_collision_def)

lemma integrate_off_ground:
  "\<not> on_ground (before_ground_collision dt c p) \<Longrightarrow>
     velocity (integrate_player dt c p) = velocity (before_ground_collision dt c p) \<and>
     isGrounded (integrate_player dt c p) = isGrounded (before_ground_collision dt c p)"
  by (simp add: integrate_player_def boundary_collision_def ground_collision_def)

lemma grounded_after_airborne:
  "\<not> isGrounded p \<Longrightarrow>
     isGrounded (integrate_player dt c p) = on_ground (before_ground_collision dt c p)"
  using integrate_on_ground [of dt c p] integrate_off_ground [of dt c p]
  by (cases "on_ground (before_ground_collision dt c p)")
     (simp_all add: before_ground_collision_grounded)

lemma airborne_run_stays_airborne:
  "\<not> isGrounded (player s) \<Longrightarrow> airborne_run ts s \<Longrightarrow> \<not> isGrounded (player (ticks ts s))"
proof (induction ts arbitrary: s)
  case Nil
  then show ?case by simp
next
  case (Cons t ts)
  obtain d n c where t: "t = (d, n, c)" by (cases t)
  let ?s' = "fst (updatePlayer d n (s\<lparr>controls := c\<rparr>))"
  from Cons.prems have a: "\<not> on_ground (before_ground_collision d c (player s))"
    and r: "airborne_run ts ?s'" by (simp_all add: t)
  from Cons.prems(1) a have "\<not> isGrounded (player ?s')"
    by (simp add: updatePlayer_player grounded_after_airborne)
  from Cons.IH [OF this r] show ?case by (simp add: t)
qed

lemma jump_velocity_before_ground:
  "isGrounded p \<Longrightarrow> jump c \<Longrightarrow>
     vec_y (velocity (before_ground_collision dt c p)) = 8 - 25 * dt \<and>
     \<not> isGrounded (before_ground_collision dt c p)"
  by (simp add: before_ground_collision_grounded before_ground_collision_velocity_y)

lemma before_ground_collision_position:
  "position (before_ground_collision dt c p) =
     vec_add (position p) (multiplyScalar (velocity (before_ground_collision dt c p)) dt)"
  by (simp add: before_ground_collision_def update_position_fields apply_gravity_fields
      handle_jump_fields handle_movement_fields handle_crouch_fields)

lemma integrate_position:
  "vec_x (position (integrate_player dt c p)) =
     max (- 49) (min 49 (vec_x (position (before_ground_collision dt c p))))"
  "vec_z (position (integrate_player dt c p)) =
     max (- 49) (min 49 (vec_z (position (before_ground_collision dt c p))))"
  "vec_y (position (integrate_player dt c p)) =
     max (height (integrate_player dt c p) / 2) (vec_y (position (before_ground_collision dt c p)))"
  by (simp_all add: integrate_player_def boundary_collision_def ground_collision_def on_ground_def)

text \<open>
  Claim C3, as the code has it. In a call of \<^verbatim>\<open>updatePlayer\<close> that finds the player grounded
  with the jump intent set, the vertical velocity is set to 8 and the gravity of the same
  call is taken off it, so the position advances with \<open>8 - 25 * deltaTime\<close>: the ground
  test sees \<open>y + (8 - 25 * deltaTime) * deltaTime\<close>. If the ground test succeeds in that
  call, the call ends grounded, at \<open>height / 2\<close>, with no vertical velocity. Otherwise it
  ends at that advanced \<open>y\<close> with vertical velocity \<open>8 - 25 * deltaTime\<close> and not grounded,
  and the player stays not grounded through every later call in which the ground test
  fails.
\<close>

theorem jump_tick:
  assumes "isGrounded (player s)" and "jump (controls s)"
  shows "vec_y (velocity (before_ground_collision dt (controls s) (player s))) = 8 - 25 * dt \<and>
    vec_y (position (before_ground_collision dt (controls s) (player s))) =
      vec_y (position (player s)) + (8 - 25 * dt) * dt \<and>
    (if on_ground (before_ground_collision dt (controls s) (player s))
     then vec_y (velocity (player (fst (updatePlayer dt now s)))) = 0 \<and>
          vec_y (position (player (fst (updatePlayer dt now s)))) =
            height (player (fst (updatePlayer dt now s))) / 2 \<and>
          isGrounded (player (fst (updatePlayer dt now s)))
     else vec_y (velocity (player (fst (updatePlayer dt now s)))) = 8 - 25 * dt \<and>
          vec_y (position (player (fst (updatePlayer dt now s)))) =
            vec_y (position (player s)) + (8 - 25 * dt) * dt \<and>
          \<not> isGrounded (player (fst (updatePlayer dt now s))) \<and>
          (\<forall>ts. airborne_run ts (fst (updatePlayer dt now s)) \<longrightarrow>
                \<not> isGrounded (player (ticks ts (fst (updatePlayer dt now s))))))"
proof -
  let ?q = "before_ground_collision dt (controls s) (player s)"
  let ?p = "player (fst (updatePlayer dt now s))"
  note j = jump_velocity_before_ground [OF assms, of dt]
  have "vec_y (position ?q) = vec_y (position (player s)) + vec_y (velocity ?q) * dt"
    using before_ground_collision_position [of dt "controls s" "player s"]
    by (simp add: vec_add_def multiplyScalar_def)
  with j have y: "vec_y (position ?q) = vec_y (position (player s)) + (8 - 25 * dt) * dt"
    by simp
  show ?thesis
  proof (cases "on_ground ?q")
    case True
    have "vec_y (position ?p) = height ?p / 2"
      by (simp add: True updatePlayer_player integrate_player_def boundary_collision_def
          ground_collision_def)
    with True j y show ?thesis by (simp add: updatePlayer_player integrate_on_ground)
  next
    case False
    then have g: "\<not> isGrounded ?p"
      using j by (simp add: updatePlayer_player integrate_off_ground)
    have "vec_y (position ?p) = vec_y (position ?q)"
      by (simp add: False updatePlayer_player integrate_player_def boundary_collision_def
          ground_collision_def)
    with y have "vec_y (position ?p) = vec_y (position (player s)) + (8 - 25 * dt) * dt"
      by simp
    with False j g y show ?thesis
      by (simp add: updatePlayer_player integrate_off_ground airborne_run_stays_airborne)
  qed
qed

lemma jump_engine_player:
  "player jump_engine =
     \<lparr>position = \<lparr>vec_x = 0, vec_y = 9 / 5, vec_z = 0\<rparr>,
      velocity = \<lparr>vec_x = 0, vec_y = 0, vec_z = 0\<rparr>,
      rotation = \<lparr>rot_x = 0, rot_y = 0\<rparr>, isGrounded = True, isSprinting = False,
      isCrouching = False, height = 9 / 5\<rparr>"
  "controls jump_engine = no_controls\<lparr>jump := True\<rparr>"
  by (simp_all add: jump_engine_def initial_engine_def origin_def)

lemma jump_engine_before_ground:
  "before_ground_collision (1 / 50) (no_controls\<lparr>jump := True\<rparr>) (player jump_engine) =
     \<lparr>position = \<lparr>vec_x = 0, vec_y = 39 / 20, vec_z = 0\<rparr>,
      velocity = \<lparr>vec_x = 0, vec_y = 15 / 2, vec_z = 0\<rparr>,
      rotation = \<lparr>rot_x = 0, rot_y = 0\<rparr>, isGrounded = False, isSprinting = False,
      isCrouching = False, height = 9 / 5\<rparr>"
  by (simp add: jump_engine_player no_controls_def before_ground_collision_def
      update_position_def apply_gravity_def handle_jump_def handle_movement_def
      handle_crouch_def move_direction_def vec_length_def lerp_def vec_add_def
      multiplyScalar_def Let_def)

lemma jump_engine_after:
  "player (fst (updatePlayer (1 / 50) 20 jump_engine)) =
     \<lparr>position = \<lparr>vec_x = 0, vec_y = 39 / 20, vec_z = 0\<rparr>,
      velocity = \<lparr>vec_x = 0, vec_y = 15 / 2, vec_z = 0\<rparr>,
      rotation = \<lparr>rot_x = 0, rot_y = 0\<rparr>, isGrounded = False, isSprinting = False,
      isCrouching = False, height = 9 / 5\<rparr>"
  by (simp add: updatePlayer_player integrate_player_def jump_engine_player(2)
      jump_engine_before_ground boundary_collision_def ground_collision_def on_ground_def)

lemma jump_engine_second_tick:
  "before_ground_collision (1 / 50) no_controls
     \<lparr>position = \<lparr>vec_x = 0, vec_y = 39 / 20, vec_z = 0\<rparr>,
      velocity = \<lparr>vec_x = 0, vec_y = 15 / 2, vec_z = 0\<rparr>,
      rotation = \<lparr>rot_x = 0, rot_y = 0\<rparr>, isGrounded = False, isSprinting = False,
      isCrouching = False, height = 9 / 5\<rparr> =
     \<lparr>position = \<lparr>vec_x = 0, vec_y = 209 / 100, vec_z = 0\<rparr>,
      velocity = \<lparr>vec_x = 0, vec_y = 7, vec_z = 0\<rparr>,
      rotation = \<lparr>rot_x = 0, rot_y = 0\<rparr>, isGrounded = False, isSprinting = False,
      isCrouching = False, height = 9 / 5\<rparr>"
  by (simp add: no_controls_def before_ground_collision_def
      update_position_def apply_gravity_def handle_jump_def handle_movement_def
      handle_crouch_def move_direction_def vec_length_def lerp_def vec_add_def
      multiplyScalar_def Let_def)

text \<open>Claim C3 as written asks for a vertical velocity of exactly 8 after the call; from
  the initial state, a jump with \<open>deltaTime = 0.02\<close> leaves \<open>7.5\<close>.\<close>

theorem jump_tick_counterexample:
  "isGrounded (player jump_engine) \<and> jump (controls jump_engine) \<and>
   vec_y (velocity (player (fst (updatePlayer (1 / 50) 20 jump_engine)))) = 15 / 2 \<and>
   vec_y (velocity (player (fst (updatePlayer (1 / 50) 20 jump_engine)))) \<noteq> 8"
  by (simp add: jump_engine_after jump_engine_player no_controls_def)

theorem jump_tick_witness:
  "isGrounded (player jump_engine) \<and> jump (controls jump_engine) \<and>
   vec_y (position (player jump_engine)) = 9 / 5 \<and>
   vec_y (velocity (player (fst (updatePlayer (1 / 50) 20 jump_engine)))) = 15 / 2 \<and>
   vec_y (position (player (fst (updatePlayer (1 / 50) 20 jump_engine)))) = 39 / 20 \<and>
   \<not> isGrounded (player (fst (updatePlayer (1 / 50) 20 jump_engine))) \<and>
   \<not> isGrounded (player (ticks [(1 / 50, 40, no_controls)]
                              (fst (updatePlayer (1 / 50) 20 jump_engine))))"
proof -
  have g: "isGrounded (player jump_engine)" and j: "jump (controls jump_engine)"
    and y: "vec_y (position (player jump_engine)) = 9 / 5"
    by (simp_all add: jump_engine_player no_controls_def)
  have a: "\<not> on_ground (before_ground_collision (1 / 50) (controls jump_engine) (player jump_engine))"
    by (simp add: jump_engine_player(2) jump_engine_before_ground on_ground_def)
  have r: "airborne_run [(1 / 50, 40, no_controls)] (fst (updatePlayer (1 / 50) 20 jump_engine))"
    by (simp add: jump_engine_after jump_engine_second_tick on_ground_def)
  from jump_tick [OF g j, of "1 / 50" 20] a y
  have v: "vec_y (velocity (player (fst (updatePlayer (1 / 50) 20 jump_engine)))) = 15 / 2"
    and p: "vec_y (position (player (fst (updatePlayer (1 / 50) 20 jump_engine)))) = 39 / 20"
    and n: "\<not> isGrounded (player (fst (updatePlayer (1 / 50) 20 jump_engine)))"
    and l: "\<forall>ts. airborne_run ts (fst (updatePlayer (1 / 50) 20 jump_engine)) \<longrightarrow>
              \<not> isGrounded (player (ticks ts (fst (updatePlayer (1 / 50) 20 jump_engine))))"
    by simp_all
  from l r have "\<not> isGrounded (player (ticks [(1 / 50, 40, no_controls)]
                              (fst (updatePlayer (1 / 50) 20 jump_engine))))"
    by blast
  with g j y v p n show ?thesis by blast
qed

lemma updateBullets_no_bullets:
  "bullets s = [] \<Longrightarrow> updateBullets dt now s = (s, [])"
  by (simp add: updateBullets_def)

lemma updatePlayer_bullets: "bullets (fst (updatePlayer dt now s)) = bullets s"
  by (simp add: updatePlayer_def Let_def)

lemma forward_engine_fields:
  "isRunning forward_engine" "bullets forward_engine = []"
  "controls forward_engine = no_controls\<lparr>forward := True\<rparr>"
  "player forward_engine =
     \<lparr>position = \<lparr>vec_x = 0, vec_y = 9 / 5, vec_z = 0\<rparr>,
      velocity = \<lparr>vec_x = 0, vec_y = 0, vec_z = 0\<rparr>,
      rotation = \<lparr>rot_x = 0, rot_y = 0\<rparr>, isGrounded = True, isSprinting = False,
      isCrouching = False, height = 9 / 5\<rparr>"
  by (simp_all add: forward_engine_def initial_engine_def origin_def)

lemma animate_running:
  "isRunning s \<Longrightarrow>
     animate dt now s =
       (fst (updateBullets dt now (fst (updatePlayer dt now s))),
        snd (updatePlayer dt now s),
        snd (updateBullets dt now (fst (updatePlayer dt now s))))"
  by (simp add: animate_def split: prod.splits)

lemma animate_player:
  "isRunning s \<Longrightarrow> bullets s = [] \<Longrightarrow>
     player (fst (animate dt now s)) = integrate_player dt (controls s) (player s)"
  by (simp add: animate_running updateBullets_no_bullets updatePlayer_bullets updatePlayer_player)

lemma forward_controls:
  "crouch (no_controls\<lparr>forward := True\<rparr>) = False"
  "sprint (no_controls\<lparr>forward := True\<rparr>) = False"
  "jump (no_controls\<lparr>forward := True\<rparr>) = False"
  "move_direction (no_controls\<lparr>forward := True\<rparr>) = \<lparr>vec_x = 0, vec_y = 0, vec_z = - 1\<rparr>"
  by (simp_all add: no_controls_def move_direction_def)

lemma lerp_same: "lerp a a t = a"
  by (simp add: lerp_def algebra_simps)

lemma forward_engine_movement:
  "handle_movement (no_controls\<lparr>forward := True\<rparr>)
     (handle_crouch dt (no_controls\<lparr>forward := True\<rparr>) (player forward_engine)) =
     \<lparr>position = \<lparr>vec_x = 0, vec_y = 9 / 5, vec_z = 0\<rparr>,
      velocity = \<lparr>vec_x = 0, vec_y = 0, vec_z = - 5\<rparr>,
      rotation = \<lparr>rot_x = 0, rot_y = 0\<rparr>, isGrounded = True, isSprinting = False,
      isCrouching = False, height = 9 / 5\<rparr>"
  by (simp add: handle_movement_def handle_crouch_def forward_controls forward_engine_fields
      vec_length_def vec_normalize_def applyAxisAngle_y_def multiplyScalar_def lerp_same)

lemma forward_engine_integrate:
  "position (integrate_player dt (no_controls\<lparr>forward := True\<rparr>) (player forward_engine)) =
     \<lparr>vec_x = 0, vec_y = 9 / 5, vec_z = max (- 49) (min 49 (- (5 * dt)))\<rparr>"
  by (simp add: integrate_player_def boundary_collision_def ground_collision_def on_ground_def
      before_ground_collision_def update_position_def apply_gravity_def handle_jump_def
      forward_engine_movement forward_controls vec_add_def multiplyScalar_def)

lemma stalled_engine_fields:
  "isRunning stalled_engine" "bullets stalled_engine = []"
  "controls stalled_engine = no_controls\<lparr>jump := True, crouch := True\<rparr>"
  "player stalled_engine =
     \<lparr>position = \<lparr>vec_x = 0, vec_y = 9 / 5, vec_z = 0\<rparr>,
      velocity = \<lparr>vec_x = 0, vec_y = 0, vec_z = 0\<rparr>,
      rotation = \<lparr>rot_x = 0, rot_y = 0\<rparr>, isGrounded = True, isSprinting = False,
      isCrouching = False, height = 9 / 5\<rparr>"
  by (simp_all add: stalled_engine_def initial_engine_def origin_def)

lemma stalled_engine_before_ground:
  "before_ground_collision 3600 (no_controls\<lparr>jump := True, crouch := True\<rparr>)
     (player stalled_engine) =
     \<lparr>position = \<lparr>vec_x = 0, vec_y = - (1619855991 / 5), vec_z = 0\<rparr>,
      velocity = \<lparr>vec_x = 0, vec_y = - 89992, vec_z = 0\<rparr>,
      rotation = \<lparr>rot_x = 0, rot_y = 0\<rparr>, isGrounded = False, isSprinting = False,
      isCrouching = False, height = - (107991 / 5)\<rparr>"
  by (simp add: stalled_engine_fields(4) no_controls_def before_ground_collision_def
      update_position_def apply_gravity_def handle_jump_def handle_movement_def
      handle_crouch_def move_direction_def vec_length_def lerp_def vec_add_def
      multiplyScalar_def Let_def)

lemma stalled_engine_integrate:
  "integrate_player 3600 (no_controls\<lparr>jump := True, crouch := True\<rparr>) (player stalled_engine) =
     \<lparr>position = \<lparr>vec_x = 0, vec_y = - (107991 / 10), vec_z = 0\<rparr>,
      velocity = \<lparr>vec_x = 0, vec_y = 0, vec_z = 0\<rparr>,
      rotation = \<lparr>rot_x = 0, rot_y = 0\<rparr>, isGrounded = True, isSprinting = False,
      isCrouching = False, height = - (107991 / 5)\<rparr>"
  by (simp add: integrate_player_def stalled_engine_before_ground boundary_collision_def
      ground_collision_def on_ground_def)

text \<open>Claim C4 as written has the elapsed time clamped to a sane maximum. With the
  forward key held, a frame whose clock delta is 9 seconds moves the player 45 units and one
  whose delta is \<open>-1\<close> second moves it 5 units backwards; with the space bar and the crouch
  key held, a frame whose delta is an hour leaves the player 10799.1 units under the
  ground plane.\<close>

theorem elapsed_time_counterexample:
  "vec_z (position (player forward_engine)) = 0 \<and>
   vec_z (position (player (fst (animate 9 0 forward_engine)))) = - 45 \<and>
   vec_z (position (player (fst (animate (- 1) 0 forward_engine)))) = 5 \<and>
   vec_y (position (player stalled_engine)) = 9 / 5 \<and>
   vec_y (position (player (fst (animate 3600 0 stalled_engine)))) = - (107991 / 10)"
proof -
  have "vec_z (position (player forward_engine)) = 0"
    by (simp add: forward_engine_fields(4))
  moreover have "vec_y (position (player stalled_engine)) = 9 / 5"
    by (simp add: stalled_engine_fields(4))
  ultimately show ?thesis
    by (simp add: animate_player forward_engine_fields(1-3) forward_engine_integrate
        stalled_engine_fields(1-3) stalled_engine_integrate)
qed

lemma handle_crouch_height:
  "height (handle_crouch dt c p) = lerp (height p) (if crouch c then 12 / 10 else 18 / 10) (dt * 10)"
  by (simp add: handle_crouch_def Let_def)

lemma integrate_height:
  "height (integrate_player dt c p) =
     lerp (height p) (if crouch c then 12 / 10 else 18 / 10) (dt * 10)"
  by (simp add: integrate_player_def boundary_collision_def ground_collision_def
      before_ground_collision_def update_position_fields apply_gravity_fields handle_jump_fields
      handle_movement_fields handle_crouch_height)

text \<open>
  Claim C4, as the code has it. The elapsed time is used as it is given: \<^verbatim>\<open>animate\<close> hands
  the clock's delta to \<^verbatim>\<open>updatePlayer\<close> and \<^verbatim>\<open>updateBullets\<close> unchanged, the height is
  interpolated with the factor \<open>deltaTime * 10\<close>, the vertical velocity loses
  \<open>25 * deltaTime\<close> while airborne, and the position advances by
  \<open>velocity * deltaTime\<close>, for every \<open>deltaTime\<close>. What bounds the outcome of a tick is the
  ground clamp (\<open>y\<close> ends at \<open>height / 2\<close> or above) and the arena clamp (\<open>x\<close> and \<open>z\<close> end in
  \<open>[-49, 49]\<close>).
\<close>

theorem elapsed_time_used_as_given:
  "fst (animate dt now (s\<lparr>isRunning := True\<rparr>)) =
     fst (updateBullets dt now (fst (updatePlayer dt now (s\<lparr>isRunning := True\<rparr>)))) \<and>
   height (player (fst (updatePlayer dt now s))) =
     lerp (height (player s)) (if crouch (controls s) then 12 / 10 else 18 / 10) (dt * 10) \<and>
   vec_y (velocity (before_ground_collision dt (controls s) (player s))) =
     (if jump (controls s) \<and> isGrounded (player s) then 8 - 25 * dt
      else if isGrounded (player s) then vec_y (velocity (player s))
      else vec_y (velocity (player s)) - 25 * dt) \<and>
   position (before_ground_collision dt (controls s) (player s)) =
     vec_add (position (player s))
       (multiplyScalar (velocity (before_ground_collision dt (controls s) (player s))) dt) \<and>
   vec_x (position (player (fst (updatePlayer dt now s)))) =
     max (- 49) (min 49 (vec_x (position (before_ground_collision dt (controls s) (player s))))) \<and>
   vec_z (position (player (fst (updatePlayer dt now s)))) =
     max (- 49) (min 49 (vec_z (position (before_ground_collision dt (controls s) (player s))))) \<and>
   vec_y (position (player (fst (updatePlayer dt now s)))) =
     max (height (player (fst (updatePlayer dt now s))) / 2)
       (vec_y (position (before_ground_collision dt (controls s) (player s))))"
proof -
  have "isRunning (s\<lparr>isRunning := True\<rparr>)" by simp
  then have "fst (animate dt now (s\<lparr>isRunning := True\<rparr>)) =
     fst (updateBullets dt now (fst (updatePlayer dt now (s\<lparr>isRunning := True\<rparr>))))"
    by (simp only: animate_running fst_conv)
  then show ?thesis
    using before_ground_collision_position [of dt "controls s" "player s"]
      before_ground_collision_velocity_y [of dt "controls s" "player s"]
    by (simp only: updatePlayer_player integrate_position integrate_height simp_thms)
qed

lemma updatePlayer_report:
  "snd (updatePlayer dt now s) =
     (if now - lastUpdateTime s > 50
      then Some \<lparr>report_position = position (player (fst (updatePlayer dt now s))),
                 report_rotation = rotation (player (fst (updatePlayer dt now s)))\<rparr>
      else None)"
  "lastUpdateTime (fst (updatePlayer dt now s)) =
     (if now - lastUpdateTime s > 50 then now else lastUpdateTime s)"
  by (simp_all add: updatePlayer_def Let_def)

lemma report_times_spaced: "spaced (lastUpdateTime s) (report_times ts s)"
proof (induction ts arbitrary: s)
  case Nil
  show ?case by simp
next
  case (Cons t ts)
  obtain d n c where t: "t = (d, n, c)" by (cases t)
  let ?s = "s\<lparr>controls := c\<rparr>"
  let ?s' = "fst (updatePlayer d n ?s)"
  have u: "updatePlayer d n ?s = (?s', snd (updatePlayer d n ?s))" by simp
  show ?case
  proof (cases "n - lastUpdateTime s > 50")
    case True
    then have "lastUpdateTime ?s' = n" and "snd (updatePlayer d n ?s) \<noteq> None"
      by (simp_all add: updatePlayer_report)
    with Cons.IH [of ?s'] True u show ?thesis
      by (auto simp: t split: prod.splits option.splits)
  next
    case False
    then have "lastUpdateTime ?s' = lastUpdateTime s" and "snd (updatePlayer d n ?s) = None"
      by (simp_all add: updatePlayer_report)
    with Cons.IH [of ?s'] u show ?thesis
      by (auto simp: t split: prod.splits option.splits)
  qed
qed

text \<open>
  Claim C7, as the code has it. A call of \<^verbatim>\<open>updatePlayer\<close> reports the position exactly when
  more than 50 ms have passed since \<^verbatim>\<open>lastUpdateTime\<close>; the report carries the position and
  rotation the call ends with, and \<^verbatim>\<open>lastUpdateTime\<close> becomes the time of the report. So in
  every run each report comes more than 50 ms after the one before.
\<close>

theorem position_report_throttle:
  "snd (updatePlayer dt now s) =
     (if now - lastUpdateTime s > 50
      then Some \<lparr>report_position = position (player (fst (updatePlayer dt now s))),
                 report_rotation = rotation (player (fst (updatePlayer dt now s)))\<rparr>
      else None) \<and>
   lastUpdateTime (fst (updatePlayer dt now s)) =
     (if now - lastUpdateTime s > 50 then now else lastUpdateTime s) \<and>
   spaced (lastUpdateTime s) (report_times ts s)"
  using updatePlayer_report [of dt now s] report_times_spaced [of s ts] by blast

text \<open>Claim C7 as written has a report whenever at least 50 ms have passed; at exactly
  50 ms there is none.\<close>

theorem position_report_throttle_counterexample:
  "50 - lastUpdateTime initial_engine \<ge> 50 \<and>
   snd (updatePlayer (1 / 60) 50 initial_engine) = None"
  by (simp add: updatePlayer_report initial_engine_def)

theorem position_report_throttle_witness:
  "snd (updatePlayer (1 / 60) 50 initial_engine) = None \<and>
   snd (updatePlayer (1 / 60) 51 initial_engine) =
     Some \<lparr>report_position = position (player (fst (updatePlayer (1 / 60) 51 initial_engine))),
           report_rotation = rotation (player (fst (updatePlayer (1 / 60) 51 initial_engine)))\<rparr> \<and>
   lastUpdateTime (fst (updatePlayer (1 / 60) 51 initial_engine)) = 51 \<and>
   spaced 0 (report_times [(1 / 60, 17, no_controls), (1 / 60, 51, no_controls),
                           (1 / 60, 101, no_controls), (1 / 60, 102, no_controls)]
               initial_engine)"
proof -
  have l: "lastUpdateTime initial_engine = 0" by (simp add: initial_engine_def)
  from position_report_throttle [of "1 / 60" 50 initial_engine "[]"]
    position_report_throttle [of "1 / 60" 51 initial_engine
      "[(1 / 60, 17, no_controls), (1 / 60, 51, no_controls),
        (1 / 60, 101, no_controls), (1 / 60, 102, no_controls)]"]
  show ?thesis by (simp add: l)
qed

section \<open>Facts about \<^verbatim>\<open>updateBullets\<close>\<close>

lemma startTime_advance: "startTime (advance_bullet dt b) = startTime b"
  by (simp add: advance_bullet_def)

lemma forEach_bullets:
  "fst (bullets_forEach dt now cur ps bs) = map (\<lambda>(bid, b). (bid, advance_bullet dt b)) bs"
  by (induction bs) (auto simp: Let_def split: prod.splits)

lemma removal_cell:
  "set ((if A then [k] else []) @ (if B then [k] else []) @ map (\<lambda>_. k) vs) =
     (if A \<or> B \<or> vs \<noteq> [] then {k} else {})"
  by (cases vs) auto

lemma forEach_removals_list:
  "fst (snd (bullets_forEach dt now cur ps bs)) =
     concat (map (\<lambda>(bid, b).
               (if now - startTime b > 5000 then [bid] else []) @
               (if out_of_bounds (bullet_position (advance_bullet dt b)) then [bid] else []) @
               map (\<lambda>_. bid) (hit_players cur (bullet_position (advance_bullet dt b)) ps)) bs)"
proof (induction bs)
  case Nil
  show ?case by simp
next
  case (Cons e bs)
  obtain bid b where e: "e = (bid, b)" by (cases e)
  obtain x y z where r: "bullets_forEach dt now cur ps bs = (x, y, z)"
    by (cases "bullets_forEach dt now cur ps bs") auto
  from Cons.IH r show ?case
    by (simp add: e Let_def startTime_advance)
qed

lemma forEach_removals:
  "(k \<in> set (fst (snd (bullets_forEach dt now cur ps bs)))) =
     (\<exists>b. (k, b) \<in> set bs \<and> doomed dt now cur ps b)"
proof -
  let ?g = "\<lambda>(bid, b).
               (if now - startTime b > 5000 then [bid] else []) @
               (if out_of_bounds (bullet_position (advance_bullet dt b)) then [bid] else []) @
               map (\<lambda>_. bid) (hit_players cur (bullet_position (advance_bullet dt b)) ps)"
  have cell: "set (?g e) = (if doomed dt now cur ps (snd e) then {fst e} else {})" for e
  proof -
    obtain i b where e: "e = (i, b)" by (cases e)
    show ?thesis unfolding e prod.case fst_conv snd_conv doomed_def by (rule removal_cell)
  qed
  have "set (fst (snd (bullets_forEach dt now cur ps bs))) = (\<Union>e\<in>set bs. set (?g e))"
    by (simp only: forEach_removals_list set_concat set_map image_image)
  also have "\<dots> = (\<Union>e\<in>set bs. if doomed dt now cur ps (snd e) then {fst e} else {})"
    by (simp only: cell)
  finally have S: "set (fst (snd (bullets_forEach dt now cur ps bs))) =
      (\<Union>e\<in>set bs. if doomed dt now cur ps (snd e) then {fst e} else {})" .
  show ?thesis
  proof
    assume "k \<in> set (fst (snd (bullets_forEach dt now cur ps bs)))"
    then obtain e where e: "e \<in> set bs"
      and k: "k \<in> (if doomed dt now cur ps (snd e) then {fst e} else {})"
      unfolding S by blast
    from k have "doomed dt now cur ps (snd e)" and "k = fst e"
      by (simp_all split: if_splits)
    with e have "(k, snd e) \<in> set bs \<and> doomed dt now cur ps (snd e)" by simp
    then show "\<exists>b. (k, b) \<in> set bs \<and> doomed dt now cur ps b" ..
  next
    assume "\<exists>b. (k, b) \<in> set bs \<and> doomed dt now cur ps b"
    then obtain b where b: "(k, b) \<in> set bs" and d: "doomed dt now cur ps b" by blast
    from d have "k \<in> (if doomed dt now cur ps (snd (k, b)) then {fst (k, b)} else {})"
      by simp
    with b show "k \<in> set (fst (snd (bullets_forEach dt now cur ps bs)))"
      unfolding S by (rule UN_I)
  qed
qed

lemma forEach_hits:
  "snd (snd (bullets_forEach dt now cur ps bs)) =
     concat (map (\<lambda>(bid, b). map (Pair bid)
                    (hit_players cur (bullet_position (advance_bullet dt b)) ps)) bs)"
  by (induction bs) (auto simp: Let_def split: prod.splits)

lemma remove_bullets_lookup:
  "map_of (bullets (remove_bullets ids s)) k =
     (if k \<in> set ids then None else map_of (bullets s) k)"
proof (induction ids arbitrary: s)
  case Nil
  show ?case by simp
next
  case (Cons i ids)
  show ?case
    by (cases "map_of (bullets s) i") (auto simp: Cons.IH AList.delete_conv')
qed

lemma map_of_advance:
  "map_of (map (\<lambda>(bid, b). (bid, advance_bullet dt b)) bs) k =
     map_option (advance_bullet dt) (map_of bs k)"
  by (induction bs) auto

lemma updateBullets_lookup:
  assumes "distinct (map fst (bullets s))" and "map_of (bullets s) bid = Some b"
  shows "map_of (bullets (fst (updateBullets dt now s))) bid =
           (if doomed dt now (currentPlayerId s) (players s) b then None
            else Some (advance_bullet dt b))"
proof -
  obtain x y z where r:
    "bullets_forEach dt now (currentPlayerId s) (players s) (bullets s) = (x, y, z)"
    by (cases "bullets_forEach dt now (currentPlayerId s) (players s) (bullets s)") auto
  from r forEach_bullets [of dt now "currentPlayerId s" "players s" "bullets s"]
  have x: "x = map (\<lambda>(bid, b). (bid, advance_bullet dt b)) (bullets s)" by simp
  from r forEach_removals [of bid dt now "currentPlayerId s" "players s" "bullets s"]
  have y: "bid \<in> set y \<longleftrightarrow>
             (\<exists>b. (bid, b) \<in> set (bullets s) \<and> doomed dt now (currentPlayerId s) (players s) b)"
    by simp
  have u: "b' = b" if "(bid, b') \<in> set (bullets s)" for b'
  proof -
    from assms(1) that have "map_of (bullets s) bid = Some b'" by (rule map_of_is_SomeI)
    with assms(2) show ?thesis by simp
  qed
  from assms(2) have m: "(bid, b) \<in> set (bullets s)" by (rule map_of_SomeD)
  from u m y have "bid \<in> set y \<longleftrightarrow> doomed dt now (currentPlayerId s) (players s) b"
    by blast
  then show ?thesis
    by (simp add: updateBullets_def r remove_bullets_lookup x map_of_advance assms(2))
qed

lemma updateBullets_hits:
  "snd (updateBullets dt now s) =
     concat (map (\<lambda>(bid, b). map (Pair bid)
                    (hit_players (currentPlayerId s) (bullet_position (advance_bullet dt b))
                       (players s))) (bullets s))"
proof -
  obtain x y z where r:
    "bullets_forEach dt now (currentPlayerId s) (players s) (bullets s) = (x, y, z)"
    by (cases "bullets_forEach dt now (currentPlayerId s) (players s) (bullets s)") auto
  from r forEach_hits [of dt now "currentPlayerId s" "players s" "bullets s"]
  show ?thesis by (simp add: updateBullets_def)
qed

lemma hit_players_filter:
  "hit_players cur q ps =
     map fst (filter (\<lambda>e. fst e \<noteq> cur \<and> distanceTo q (mesh_position (snd e)) < 1 / 2) ps)"
  by (induction ps) auto

lemma filter_Pair:
  "filter (\<lambda>e. fst e = k) (map (Pair i) xs) = (if i = k then map (Pair i) xs else [])"
  by (induction xs) auto

lemma hits_of_bullet:
  assumes "distinct (map fst bs)" and "map_of bs bid = Some b"
  shows "filter (\<lambda>e. fst e = bid) (concat (map (\<lambda>(i, b). map (Pair i) (f b)) bs)) =
           map (Pair bid) (f b)"
  using assms
proof (induction bs)
  case Nil
  then show ?case by simp
next
  case (Cons e bs)
  obtain i c where e: "e = (i, c)" by (cases e)
  have f1: "filter (\<lambda>e. fst e = bid) (map (Pair i) (f c)) =
              (if i = bid then map (Pair i) (f c) else [])"
    by (rule filter_Pair)
  show ?case
  proof (cases "i = bid")
    case True
    with Cons.prems have n: "bid \<notin> fst ` set bs" and "c = b" by (auto simp: e)
    have "filter (\<lambda>e. fst e = bid) (concat (map (\<lambda>(i, b). map (Pair i) (f b)) bs)) = []"
      using n by (induction bs) (auto simp: filter_Pair)
    with True \<open>c = b\<close> f1 show ?thesis by (simp add: e)
  next
    case False
    with Cons.prems have "distinct (map fst bs)" and "map_of bs bid = Some b"
      by (auto simp: e)
    with Cons.IH False f1 show ?thesis by (simp add: e)
  qed
qed

section \<open>Facts about \<^verbatim>\<open>updateGameState\<close>\<close>

lemma foldl_keeps:
  assumes "\<And>s e. g (f s e) = g s"
  shows "g (foldl f s xs) = g s"
  by (induction xs arbitrary: s) (simp_all add: assms)

lemma map_entry_keys: "map fst (AList.map_entry k f xs) = map fst xs"
  by (induction xs) auto

lemma lookup_None_keys: "(map_of xs k = None) = (k \<notin> set (map fst xs))"
  by (simp add: map_of_eq_None_iff)

subsection \<open>update other players\<close>

lemma update_remote_player_frame:
  "player (update_remote_player s e) = player s"
  "bullets (update_remote_player s e) = bullets s"
  "currentPlayerId (update_remote_player s e) = currentPlayerId s"
  by (cases e; simp add: update_remote_player_def Let_def split: option.splits)+

lemma update_remote_player_keys:
  "map fst (players (update_remote_player s (q, d))) =
     (if q = currentPlayerId s \<or> q \<in> set (map fst (players s)) then map fst (players s)
      else map fst (players s) @ [q])"
proof (cases "map_of (players s) q")
  case None
  then have "q \<notin> set (map fst (players s))" using lookup_None_keys [of "players s" q] by simp
  with None show ?thesis
    by (simp add: update_remote_player_def Let_def map_entry_keys AList.update_keys)
next
  case (Some h)
  then have "q \<in> set (map fst (players s))" using lookup_None_keys [of "players s" q] by simp
  with Some show ?thesis
    by (simp add: update_remote_player_def Let_def map_entry_keys)
qed

lemma update_remote_player_scene:
  "scene (update_remote_player s (q, d)) =
     (if q = currentPlayerId s \<or> q \<in> set (map fst (players s)) then scene s
      else scene s @ [PlayerMesh q, NameTag q])"
proof (cases "map_of (players s) q")
  case None
  then have "q \<notin> set (map fst (players s))" using lookup_None_keys [of "players s" q] by simp
  with None show ?thesis
    by (simp add: update_remote_player_def Let_def)
next
  case (Some h)
  then have "q \<in> set (map fst (players s))" using lookup_None_keys [of "players s" q] by simp
  with Some show ?thesis
    by (simp add: update_remote_player_def Let_def)
qed

lemma remote_players_frame:
  "player (foldl update_remote_player s ps) = player s"
  "bullets (foldl update_remote_player s ps) = bullets s"
  "currentPlayerId (foldl update_remote_player s ps) = currentPlayerId s"
  by (rule foldl_keeps, rule update_remote_player_frame)+

lemma remote_players_distinct:
  "distinct (map fst (players s)) \<Longrightarrow>
     distinct (map fst (players (foldl update_remote_player s ps)))"
proof (induction ps arbitrary: s)
  case Nil
  then show ?case by simp
next
  case (Cons e ps)
  obtain q d where e: "e = (q, d)" by (cases e)
  from Cons.prems have "distinct (map fst (players (update_remote_player s (q, d))))"
    by (simp add: update_remote_player_keys)
  from Cons.IH [OF this] show ?case by (simp add: e)
qed

lemma remote_players_keys:
  "set (map fst (players (foldl update_remote_player s ps))) =
     set (map fst (players s)) \<union> {q \<in> fst ` set ps. q \<noteq> currentPlayerId s}"
proof (induction ps arbitrary: s)
  case Nil
  show ?case by simp
next
  case (Cons e ps)
  obtain q d where e: "e = (q, d)" by (cases e)
  have "set (map fst (players (update_remote_player s (q, d)))) =
          set (map fst (players s)) \<union> (if q = currentPlayerId s then {} else {q})"
    by (auto simp: update_remote_player_keys)
  with Cons.IH [of "update_remote_player s (q, d)"] show ?case
    by (auto simp: e update_remote_player_frame)
qed

lemma remote_players_scene:
  "count_list (scene (foldl update_remote_player s ps)) (PlayerMesh pid) =
     count_list (scene s) (PlayerMesh pid) +
       (if pid \<in> fst ` set ps \<and> pid \<noteq> currentPlayerId s \<and> pid \<notin> set (map fst (players s))
        then 1 else 0)"
proof (induction ps arbitrary: s)
  case Nil
  show ?case by simp
next
  case (Cons e ps)
  obtain q d where e: "e = (q, d)" by (cases e)
  let ?s = "update_remote_player s (q, d)"
  have k: "set (map fst (players ?s)) =
          set (map fst (players s)) \<union> (if q = currentPlayerId s then {} else {q})"
    by (auto simp: update_remote_player_keys)
  have c: "count_list (scene ?s) (PlayerMesh pid) =
          count_list (scene s) (PlayerMesh pid) +
            (if pid = q \<and> q \<noteq> currentPlayerId s \<and> q \<notin> set (map fst (players s))
             then 1 else 0)"
    by (simp add: update_remote_player_scene)
  have "count_list (scene (foldl update_remote_player ?s ps)) (PlayerMesh pid) =
     count_list (scene ?s) (PlayerMesh pid) +
       (if pid \<in> fst ` set ps \<and> pid \<noteq> currentPlayerId s \<and> pid \<notin> set (map fst (players ?s))
        then 1 else 0)"
    using Cons.IH [of ?s] by (simp only: update_remote_player_frame)
  then show ?case
    unfolding c k by (cases "pid = q") (auto simp: e)
qed

subsection \<open>remove disconnected players\<close>

lemma listed_iff:
  "listed g pid = (case gs_players g of None \<Rightarrow> False | Some ps \<Rightarrow> pid \<in> fst ` set ps)"
proof (cases "gs_players g")
  case None
  then show ?thesis by (simp add: listed_def)
next
  case (Some ps)
  have "(find (\<lambda>p. fst p = pid) ps \<noteq> None) = (pid \<in> fst ` set ps)"
    by (induction ps) auto
  with Some show ?thesis by (simp add: listed_def)
qed

lemma remove_disconnected_frame:
  "player (remove_disconnected g s e) = player s"
  "bullets (remove_disconnected g s e) = bullets s"
  "currentPlayerId (remove_disconnected g s e) = currentPlayerId s"
  by (cases e; simp add: remove_disconnected_def)+

lemma remove_disconnected_keys:
  "map fst (players (remove_disconnected g s (k, h))) =
     (if listed g k then map fst (players s) else removeAll k (map fst (players s)))"
  by (simp add: remove_disconnected_def AList.delete_keys)

lemma remove_disconnected_scene:
  "count_list (scene (remove_disconnected g s (k, h))) (PlayerMesh pid) =
     count_list (scene s) (PlayerMesh pid) - (if k = pid \<and> \<not> listed g k then 1 else 0)"
  by (simp add: remove_disconnected_def)

lemma disconnected_frame:
  "player (foldl (remove_disconnected g) s es) = player s"
  "bullets (foldl (remove_disconnected g) s es) = bullets s"
  "currentPlayerId (foldl (remove_disconnected g) s es) = currentPlayerId s"
  by (rule foldl_keeps, rule remove_disconnected_frame)+

lemma disconnected_keys:
  "map fst (players (foldl (remove_disconnected g) s es)) =
     filter (\<lambda>k. listed g k \<or> k \<notin> fst ` set es) (map fst (players s))"
proof (induction es arbitrary: s)
  case Nil
  show ?case by simp
next
  case (Cons e es)
  obtain k h where e: "e = (k, h)" by (cases e)
  show ?case
    unfolding e foldl_Cons Cons.IH remove_disconnected_keys
    by (auto simp: removeAll_filter_not_eq intro: filter_cong)
qed

lemma disconnected_scene:
  "distinct (map fst es) \<Longrightarrow>
     count_list (scene (foldl (remove_disconnected g) s es)) (PlayerMesh pid) =
       count_list (scene s) (PlayerMesh pid) -
         (if pid \<in> fst ` set es \<and> \<not> listed g pid then 1 else 0)"
proof (induction es arbitrary: s)
  case Nil
  show ?case by simp
next
  case (Cons e es)
  obtain k h where e: "e = (k, h)" by (cases e)
  from Cons.prems have d: "distinct (map fst es)" and n: "k \<notin> fst ` set es"
    by (simp_all add: e)
  show ?case
    unfolding e foldl_Cons Cons.IH [OF d] remove_disconnected_scene
    using n by (cases "k = pid") auto
qed

subsection \<open>update bullets\<close>

lemma add_bullet_frame:
  "player (add_bullet s e) = player s"
  "players (add_bullet s e) = players s"
  "currentPlayerId (add_bullet s e) = currentPlayerId s"
  "count_list (scene (add_bullet s e)) (PlayerMesh pid) = count_list (scene s) (PlayerMesh pid)"
  by (cases e; simp add: add_bullet_def split: option.splits)+

lemma new_bullets_frame:
  "player (foldl add_bullet s bl) = player s"
  "players (foldl add_bullet s bl) = players s"
  "currentPlayerId (foldl add_bullet s bl) = currentPlayerId s"
  "count_list (scene (foldl add_bullet s bl)) (PlayerMesh pid) = count_list (scene s) (PlayerMesh pid)"
     apply (rule foldl_keeps, rule add_bullet_frame)
    apply (rule foldl_keeps, rule add_bullet_frame)
   apply (rule foldl_keeps, rule add_bullet_frame)
  apply (rule foldl_keeps [where g = "\<lambda>s. count_list (scene s) (PlayerMesh pid)"],
      rule add_bullet_frame)
  done

lemma add_bullet_lookup:
  "map_of (bullets (add_bullet s (bid, d))) k =
     (case map_of (bullets s) k of
        Some b \<Rightarrow> Some b
      | None \<Rightarrow> if k = bid then Some (seeded_bullet d) else None)"
  by (simp add: add_bullet_def AList.update_conv' seeded_bullet_def split: option.splits)

lemma new_bullets_lookup:
  "map_of (bullets (foldl add_bullet s bl)) k =
     (case map_of (bullets s) k of
        Some b \<Rightarrow> Some b
      | None \<Rightarrow> map_option seeded_bullet (map_of bl k))"
proof (induction bl arbitrary: s)
  case Nil
  show ?case by (simp split: option.splits)
next
  case (Cons e bl)
  obtain bid d where e: "e = (bid, d)" by (cases e)
  show ?case
    unfolding e foldl_Cons Cons.IH add_bullet_lookup
    by (simp split: option.splits)
qed

lemma updateGameState_phases:
  "updateGameState (Some g) s =
     foldl add_bullet
       (foldl (remove_disconnected g) (foldl update_remote_player s (snapshot_players g))
          (players (foldl update_remote_player s (snapshot_players g))))
       (snapshot_bullets g)"
  by (simp add: updateGameState_def Let_def snapshot_players_def snapshot_bullets_def)

lemma listed_snapshot: "listed g pid = (pid \<in> fst ` set (snapshot_players g))"
  by (simp add: listed_iff snapshot_players_def split: option.splits)

lemma count_list_distinct: "distinct xs \<Longrightarrow> x \<in> set xs \<Longrightarrow> count_list xs x = 1"
  by (induction xs) auto

lemma updateGameState_player: "player (updateGameState g s) = player s"
proof (cases g)
  case None
  then show ?thesis by (simp add: updateGameState_def)
next
  case (Some gameState)
  show ?thesis
    unfolding Some updateGameState_phases
    by (simp only: new_bullets_frame disconnected_frame remote_players_frame)
qed

lemma updateGameState_keys:
  assumes "distinct (map fst (players s))"
  shows "distinct (map fst (players (updateGameState (Some g) s)))"
    and "set (map fst (players (updateGameState (Some g) s))) =
           {k \<in> set (map fst (players s)) \<union>
                 {q \<in> fst ` set (snapshot_players g). q \<noteq> currentPlayerId s}. listed g k}"
proof -
  let ?s1 = "foldl update_remote_player s (snapshot_players g)"
  have k: "map fst (players (updateGameState (Some g) s)) =
             filter (listed g) (map fst (players ?s1))"
    unfolding updateGameState_phases new_bullets_frame disconnected_keys
    by (rule filter_cong) auto
  from assms have "distinct (map fst (players ?s1))" by (rule remote_players_distinct)
  then show "distinct (map fst (players (updateGameState (Some g) s)))"
    unfolding k by (rule distinct_filter)
  show "set (map fst (players (updateGameState (Some g) s))) =
           {k \<in> set (map fst (players s)) \<union>
                 {q \<in> fst ` set (snapshot_players g). q \<noteq> currentPlayerId s}. listed g k}"
    unfolding k set_filter remote_players_keys ..
qed

lemma updateGameState_scene:
  assumes "distinct (map fst (players s))"
  shows "count_list (scene (updateGameState (Some g) s)) (PlayerMesh pid) =
           count_list (scene s) (PlayerMesh pid)
             + (if listed g pid \<and> pid \<noteq> currentPlayerId s \<and> pid \<notin> set (map fst (players s))
                then 1 else 0)
             - (if pid \<in> set (map fst (players s)) \<and> \<not> listed g pid then 1 else 0)"
proof -
  let ?s1 = "foldl update_remote_player s (snapshot_players g)"
  from assms have d: "distinct (map fst (players ?s1))" by (rule remote_players_distinct)
  have m: "pid \<in> fst ` set (players ?s1) \<longleftrightarrow>
           pid \<in> set (map fst (players s)) \<or>
           (pid \<in> fst ` set (snapshot_players g) \<and> pid \<noteq> currentPlayerId s)"
    using remote_players_keys [of s "snapshot_players g"] by auto
  show ?thesis
    unfolding updateGameState_phases new_bullets_frame disconnected_scene [OF d]
      remote_players_scene m listed_snapshot
    by auto
qed

text \<open>
  Claim C6. Reconciling a snapshot leaves the local player's state as it was. A remote
  identifier that the snapshot lists and that has no handle yet has exactly one entry of
  \<^verbatim>\<open>this.players\<close> afterwards, and one more mesh of its own in the scene. An identifier that
  has a handle and that the snapshot does not list has no entry afterwards, and its mesh
  is out of the scene.
\<close>

theorem snapshot_reconciliation:
  assumes "distinct (map fst (players s))"
  shows "player (updateGameState (Some g) s) = player s \<and>
    (pid \<noteq> currentPlayerId s \<and> listed g pid \<and> map_of (players s) pid = None \<longrightarrow>
       map_of (players (updateGameState (Some g) s)) pid \<noteq> None \<and>
       count_list (map fst (players (updateGameState (Some g) s))) pid = 1 \<and>
       count_list (scene (updateGameState (Some g) s)) (PlayerMesh pid) =
         count_list (scene s) (PlayerMesh pid) + 1) \<and>
    (map_of (players s) pid \<noteq> None \<and> \<not> listed g pid \<longrightarrow>
       map_of (players (updateGameState (Some g) s)) pid = None \<and>
       count_list (scene (updateGameState (Some g) s)) (PlayerMesh pid) =
         count_list (scene s) (PlayerMesh pid) - 1)"
proof (intro conjI impI)
  show "player (updateGameState (Some g) s) = player s" by (rule updateGameState_player)
next
  assume a: "pid \<noteq> currentPlayerId s \<and> listed g pid \<and> map_of (players s) pid = None"
  then have n: "pid \<notin> set (map fst (players s))"
    using lookup_None_keys [of "players s" pid] by simp
  from a have "pid \<in> set (map fst (players (updateGameState (Some g) s)))"
    unfolding updateGameState_keys(2) [OF assms] by (simp add: listed_snapshot)
  then show "map_of (players (updateGameState (Some g) s)) pid \<noteq> None"
    and "count_list (map fst (players (updateGameState (Some g) s))) pid = 1"
    using lookup_None_keys [of "players (updateGameState (Some g) s)" pid]
      count_list_distinct [OF updateGameState_keys(1) [OF assms, of g], of pid]
    by simp_all
  from a n show "count_list (scene (updateGameState (Some g) s)) (PlayerMesh pid) =
         count_list (scene s) (PlayerMesh pid) + 1"
    by (simp add: updateGameState_scene [OF assms])
next
  assume a: "map_of (players s) pid \<noteq> None \<and> \<not> listed g pid"
  then have n: "pid \<in> set (map fst (players s))"
    using lookup_None_keys [of "players s" pid] by simp
  from a have "pid \<notin> set (map fst (players (updateGameState (Some g) s)))"
    unfolding updateGameState_keys(2) [OF assms] by simp
  then show "map_of (players (updateGameState (Some g) s)) pid = None"
    using lookup_None_keys [of "players (updateGameState (Some g) s)" pid] by simp
  from a n show "count_list (scene (updateGameState (Some g) s)) (PlayerMesh pid) =
         count_list (scene s) (PlayerMesh pid) - 1"
    by (simp add: updateGameState_scene [OF assms])
qed

lemma updateGameState_bullets:
  "map_of (bullets (updateGameState (Some g) s)) k =
     (case map_of (bullets s) k of
        Some b \<Rightarrow> Some b
      | None \<Rightarrow> map_option seeded_bullet (map_of (snapshot_bullets g) k))"
  unfolding updateGameState_phases new_bullets_lookup disconnected_frame remote_players_frame ..

lemma add_bullet_distinct:
  "distinct (map fst (bullets s)) \<Longrightarrow> distinct (map fst (bullets (add_bullet s e)))"
  by (cases e) (simp add: add_bullet_def AList.distinct_update split: option.splits)

lemma new_bullets_distinct:
  "distinct (map fst (bullets s)) \<Longrightarrow> distinct (map fst (bullets (foldl add_bullet s bl)))"
  by (induction bl arbitrary: s) (simp_all add: add_bullet_distinct)

lemma updateGameState_bullets_distinct:
  "distinct (map fst (bullets s)) \<Longrightarrow>
     distinct (map fst (bullets (updateGameState (Some g) s)))"
  unfolding updateGameState_phases
  by (rule new_bullets_distinct) (simp only: disconnected_frame remote_players_frame)

theorem snapshot_reconciliation_witness:
  "player (updateGameState (Some snapshot_two) own_engine) = player own_engine \<and>
   count_list (map fst (players (updateGameState (Some snapshot_two) own_engine))) ''p2'' = 1 \<and>
   count_list (scene (updateGameState (Some snapshot_two) own_engine)) (PlayerMesh ''p2'') = 1 \<and>
   player (updateGameState (Some snapshot_one) (updateGameState (Some snapshot_two) own_engine)) =
     player own_engine \<and>
   map_of (players (updateGameState (Some snapshot_one)
                      (updateGameState (Some snapshot_two) own_engine))) ''p2'' = None \<and>
   count_list (scene (updateGameState (Some snapshot_one)
                        (updateGameState (Some snapshot_two) own_engine))) (PlayerMesh ''p2'') = 0"
proof -
  let ?s1 = "updateGameState (Some snapshot_two) own_engine"
  have d0: "distinct (map fst (players own_engine))"
    by (simp add: own_engine_def initial_engine_def)
  have h1: "''p2'' \<noteq> currentPlayerId own_engine \<and> listed snapshot_two ''p2'' \<and>
            map_of (players own_engine) ''p2'' = None"
    by (simp add: own_engine_def initial_engine_def listed_def snapshot_two_def)
  have c0: "count_list (scene own_engine) (PlayerMesh ''p2'') = 0"
    by (simp add: own_engine_def initial_engine_def)
  from snapshot_reconciliation [OF d0, of snapshot_two "''p2''"] h1 c0
  have a: "player ?s1 = player own_engine"
    and b: "map_of (players ?s1) ''p2'' \<noteq> None"
    and c: "count_list (map fst (players ?s1)) ''p2'' = 1"
    and e: "count_list (scene ?s1) (PlayerMesh ''p2'') = 1"
    by simp_all
  have d1: "distinct (map fst (players ?s1))"
    using d0 by (rule updateGameState_keys(1))
  have h2: "\<not> listed snapshot_one ''p2''"
    by (simp add: listed_def snapshot_one_def)
  from snapshot_reconciliation [OF d1, of snapshot_one "''p2''"] b h2 a e
  have "player (updateGameState (Some snapshot_one) ?s1) = player own_engine"
    and "map_of (players (updateGameState (Some snapshot_one) ?s1)) ''p2'' = None"
    and "count_list (scene (updateGameState (Some snapshot_one) ?s1)) (PlayerMesh ''p2'') = 0"
    by simp_all
  with a c e show ?thesis by blast
qed

section \<open>Bullets from creation to removal\<close>

lemma sqrt_less_half: "(sqrt x < 1 / 2) = (x < 1 / 4)"
proof -
  have h: "sqrt (1 / 4) = 1 / 2" by (simp add: real_sqrt_divide)
  have "(sqrt x < sqrt (1 / 4)) = (x < 1 / 4)" by (rule real_sqrt_less_iff)
  then show ?thesis by (simp only: h)
qed

lemma distanceTo_less_half: "(distanceTo a b < 1 / 2) = (distanceToSquared a b < 1 / 4)"
  by (simp only: distanceTo_def sqrt_less_half)

text \<open>
  Claim C5, as the code has it. A call of \<^verbatim>\<open>updateBullets\<close> removes a bullet when its age,
  \<open>now - startTime\<close>, is more than 5000 ms, when its advanced position is out of bounds or
  when a player is hit; a bullet whose age is at most 5000 ms, in bounds and hitting nobody
  stays, with its position advanced. A bullet that \<^verbatim>\<open>updateGameState\<close> creates from a snapshot
  has the authority's timestamp as its start time.
\<close>

theorem bullet_expiry:
  "(distinct (map fst (bullets s)) \<and> map_of (bullets s) bid = Some b \<longrightarrow>
      map_of (bullets (fst (updateBullets dt now s))) bid =
        (if now - startTime b > 5000 \<or>
            out_of_bounds (bullet_position (advance_bullet dt b)) \<or>
            hit_players (currentPlayerId s) (bullet_position (advance_bullet dt b)) (players s) \<noteq> []
         then None else Some (advance_bullet dt b))) \<and>
   (map_of (bullets s) bid = None \<and> gs_bullets g = Some bl \<and> map_of bl bid = Some d \<longrightarrow>
      map_option startTime (map_of (bullets (updateGameState (Some g) s)) bid) =
        Some (b_timestamp d))"
proof (intro conjI impI)
  assume "distinct (map fst (bullets s)) \<and> map_of (bullets s) bid = Some b"
  then have "map_of (bullets (fst (updateBullets dt now s))) bid =
           (if doomed dt now (currentPlayerId s) (players s) b then None
            else Some (advance_bullet dt b))"
    by (simp add: updateBullets_lookup)
  then show "map_of (bullets (fst (updateBullets dt now s))) bid =
        (if now - startTime b > 5000 \<or>
            out_of_bounds (bullet_position (advance_bullet dt b)) \<or>
            hit_players (currentPlayerId s) (bullet_position (advance_bullet dt b)) (players s) \<noteq> []
         then None else Some (advance_bullet dt b))"
    by (simp only: doomed_def)
next
  assume "map_of (bullets s) bid = None \<and> gs_bullets g = Some bl \<and> map_of bl bid = Some d"
  then show "map_option startTime (map_of (bullets (updateGameState (Some g) s)) bid) =
        Some (b_timestamp d)"
    by (simp add: updateGameState_bullets snapshot_bullets_def seeded_bullet_def)
qed

lemma seeded_engine_bullets:
  "map_of (bullets (updateGameState (Some snapshot_one) own_engine)) ''b1'' =
     Some \<lparr>bullet_position = \<lparr>vec_x = 0, vec_y = 1, vec_z = 0\<rparr>,
           bullet_velocity = \<lparr>vec_x = 0, vec_y = 0, vec_z = - 100\<rparr>, startTime = 0\<rparr>"
  "distinct (map fst (bullets (updateGameState (Some snapshot_one) own_engine)))"
  by (simp_all add: updateGameState_bullets updateGameState_bullets_distinct own_engine_def
      initial_engine_def snapshot_bullets_def snapshot_one_def seeded_bullet_def
      example_bullet_def multiplyScalar_def)

lemma seeded_engine_players:
  "players (updateGameState (Some snapshot_one) own_engine) = []"
  "currentPlayerId (updateGameState (Some snapshot_one) own_engine) = ''p1''"
  by (simp_all add: updateGameState_def Let_def snapshot_one_def own_engine_def
      initial_engine_def update_remote_player_def add_bullet_def)

lemma seeded_bullet_advanced:
  "advance_bullet (1 / 100)
     \<lparr>bullet_position = \<lparr>vec_x = 0, vec_y = 1, vec_z = 0\<rparr>,
      bullet_velocity = \<lparr>vec_x = 0, vec_y = 0, vec_z = - 100\<rparr>, startTime = 0\<rparr> =
     \<lparr>bullet_position = \<lparr>vec_x = 0, vec_y = 1, vec_z = - 1\<rparr>,
      bullet_velocity = \<lparr>vec_x = 0, vec_y = 0, vec_z = - 100\<rparr>, startTime = 0\<rparr>"
  by (simp add: advance_bullet_def vec_add_def multiplyScalar_def)

text \<open>Claim C5 as written has the bullet removed by the time its age reaches 5 seconds.
  A bullet created from a snapshot with timestamp 0 is still there after the call at
  \<open>now = 5000\<close>.\<close>

theorem bullet_expiry_counterexample:
  "map_option startTime
     (map_of (bullets (updateGameState (Some snapshot_one) own_engine)) ''b1'') = Some 0 \<and>
   (5000 :: int) - 0 \<ge> 5000 \<and>
   map_of (bullets (fst (updateBullets (1 / 100) 5000
                           (updateGameState (Some snapshot_one) own_engine)))) ''b1'' =
     Some \<lparr>bullet_position = \<lparr>vec_x = 0, vec_y = 1, vec_z = - 1\<rparr>,
           bullet_velocity = \<lparr>vec_x = 0, vec_y = 0, vec_z = - 100\<rparr>, startTime = 0\<rparr>"
  using updateBullets_lookup [OF seeded_engine_bullets(2) seeded_engine_bullets(1), of "1 / 100" 5000]
  by (simp add: seeded_engine_bullets(1) seeded_engine_players doomed_def seeded_bullet_advanced
      out_of_bounds_def)

theorem bullet_expiry_witness:
  "map_of (bullets (fst (updateBullets (1 / 100) 5001
                           (updateGameState (Some snapshot_one) own_engine)))) ''b1'' = None \<and>
   map_of (bullets (fst (updateBullets (1 / 100) 4999
                           (updateGameState (Some snapshot_one) own_engine)))) ''b1'' =
     Some \<lparr>bullet_position = \<lparr>vec_x = 0, vec_y = 1, vec_z = - 1\<rparr>,
           bullet_velocity = \<lparr>vec_x = 0, vec_y = 0, vec_z = - 100\<rparr>, startTime = 0\<rparr> \<and>
   map_option startTime
     (map_of (bullets (updateGameState (Some snapshot_one) own_engine)) ''b1'') = Some 0"
proof -
  let ?s = "updateGameState (Some snapshot_one) own_engine"
  let ?b = "\<lparr>bullet_position = \<lparr>vec_x = 0, vec_y = 1, vec_z = 0\<rparr>,
             bullet_velocity = \<lparr>vec_x = 0, vec_y = 0, vec_z = - 100\<rparr>, startTime = 0\<rparr>"
  have h: "distinct (map fst (bullets ?s)) \<and> map_of (bullets ?s) ''b1'' = Some ?b"
    by (simp add: seeded_engine_bullets)
  have 1: "map_of (bullets (fst (updateBullets (1 / 100) 5001 ?s))) ''b1'' = None"
    using bullet_expiry [of ?s "''b1''" ?b "1 / 100" 5001, THEN conjunct1] h by simp
  have 2: "map_of (bullets (fst (updateBullets (1 / 100) 4999 ?s))) ''b1'' =
     Some \<lparr>bullet_position = \<lparr>vec_x = 0, vec_y = 1, vec_z = - 1\<rparr>,
           bullet_velocity = \<lparr>vec_x = 0, vec_y = 0, vec_z = - 100\<rparr>, startTime = 0\<rparr>"
    using bullet_expiry [of ?s "''b1''" ?b "1 / 100" 4999, THEN conjunct1] h
    by (simp add: seeded_engine_players seeded_bullet_advanced out_of_bounds_def)
  have g: "map_of (bullets own_engine) ''b1'' = None \<and>
           gs_bullets snapshot_one = Some [(''b1'', example_bullet ''p1'')] \<and>
           map_of [(''b1'', example_bullet ''p1'')] ''b1'' = Some (example_bullet ''p1'')"
    by (simp add: own_engine_def initial_engine_def snapshot_one_def)
  have 3: "map_option startTime (map_of (bullets ?s) ''b1'') = Some 0"
    using bullet_expiry [of own_engine "''b1''" _ _ _ snapshot_one
        "[(''b1'', example_bullet ''p1'')]" "example_bullet ''p1''", THEN conjunct2] g
    by (simp add: example_bullet_def)
  from 1 2 3 show ?thesis by blast
qed

text \<open>
  Claim C2, as the code has it. In a call of \<^verbatim>\<open>updateBullets\<close> the hit events of a bullet are
  one for every player, other than the current player, whose mesh is less than 0.5 units
  from the bullet's advanced position, in the order of \<^verbatim>\<open>this.players\<close>; when there is at
  least one, the bullet is removed.
\<close>

theorem hit_events_per_bullet:
  assumes "distinct (map fst (bullets s))" and "map_of (bullets s) bid = Some b"
  shows "filter (\<lambda>e. fst e = bid) (snd (updateBullets dt now s)) =
           map (Pair bid)
             (map fst
                (filter (\<lambda>e. fst e \<noteq> currentPlayerId s \<and>
                              distanceTo (bullet_position (advance_bullet dt b))
                                (mesh_position (snd e)) < 1 / 2)
                   (players s))) \<and>
         (filter (\<lambda>e. fst e = bid) (snd (updateBullets dt now s)) \<noteq> [] \<longrightarrow>
            map_of (bullets (fst (updateBullets dt now s))) bid = None)"
proof -
  have h: "filter (\<lambda>e. fst e = bid) (snd (updateBullets dt now s)) =
      map (Pair bid)
        (hit_players (currentPlayerId s) (bullet_position (advance_bullet dt b)) (players s))"
    unfolding updateBullets_hits using assms by (rule hits_of_bullet)
  have "map_of (bullets (fst (updateBullets dt now s))) bid = None"
    if "hit_players (currentPlayerId s) (bullet_position (advance_bullet dt b)) (players s) \<noteq> []"
    using that updateBullets_lookup [OF assms, of dt now] by (simp add: doomed_def)
  with h show ?thesis by (simp add: hit_players_filter)
qed

lemma crowded_engine_fields:
  "bullets crowded_engine =
     [(''b1'', \<lparr>bullet_position = \<lparr>vec_x = 0, vec_y = 1, vec_z = 0\<rparr>,
                bullet_velocity = \<lparr>vec_x = 0, vec_y = 0, vec_z = - 100\<rparr>, startTime = 0\<rparr>)]"
  "players crowded_engine =
     [(''p2'', player_view_at (1 / 10) 1 (- 1)), (''p3'', player_view_at (- (1 / 10)) 1 (- 1))]"
  "currentPlayerId crowded_engine = ''p1''"
  by (simp_all add: crowded_engine_def own_engine_def initial_engine_def)

lemma crowded_engine_hits:
  "hit_players ''p1'' \<lparr>vec_x = 0, vec_y = 1, vec_z = - 1\<rparr> (players crowded_engine) =
     [''p2'', ''p3'']"
proof -
  have 1: "distanceTo \<lparr>vec_x = 0, vec_y = 1, vec_z = - 1\<rparr>
             (mesh_position (player_view_at (1 / 10) 1 (- 1))) < 1 / 2"
    unfolding distanceTo_less_half by (simp add: distanceToSquared_def player_view_at_def)
  have 2: "distanceTo \<lparr>vec_x = 0, vec_y = 1, vec_z = - 1\<rparr>
             (mesh_position (player_view_at (- (1 / 10)) 1 (- 1))) < 1 / 2"
    unfolding distanceTo_less_half by (simp add: distanceToSquared_def player_view_at_def)
  from 1 2 show ?thesis by (simp add: crowded_engine_fields(2))
qed

text \<open>Claim C2 as written has at most one hit event for a bullet in a tick. A bullet
  within the threshold of two remote players gives two.\<close>

theorem hit_events_per_bullet_counterexample:
  "snd (updateBullets (1 / 100) 100 crowded_engine) = [(''b1'', ''p2''), (''b1'', ''p3'')]"
  using crowded_engine_hits
  by (simp add: updateBullets_hits crowded_engine_fields(1,3) seeded_bullet_advanced)

theorem hit_events_per_bullet_witness:
  "filter (\<lambda>e. fst e = ''b1'') (snd (updateBullets (1 / 100) 100 crowded_engine)) =
     [(''b1'', ''p2''), (''b1'', ''p3'')] \<and>
   map_of (bullets (fst (updateBullets (1 / 100) 100 crowded_engine))) ''b1'' = None"
proof -
  let ?b = "\<lparr>bullet_position = \<lparr>vec_x = 0, vec_y = 1, vec_z = 0\<rparr>,
             bullet_velocity = \<lparr>vec_x = 0, vec_y = 0, vec_z = - 100\<rparr>, startTime = 0\<rparr>"
  have d: "distinct (map fst (bullets crowded_engine))"
    and m: "map_of (bullets crowded_engine) ''b1'' = Some ?b"
    by (simp_all add: crowded_engine_fields(1))
  have v: "map fst (filter (\<lambda>e. fst e \<noteq> currentPlayerId crowded_engine \<and>
                              distanceTo (bullet_position (advance_bullet (1 / 100) ?b))
                                (mesh_position (snd e)) < 1 / 2)
                   (players crowded_engine)) = [''p2'', ''p3'']"
    using crowded_engine_hits
    by (simp only: hit_players_filter crowded_engine_fields(3) seeded_bullet_advanced
        local_bullet.simps)
  from hit_events_per_bullet [OF d m, of "1 / 100" 100]
  have 1: "filter (\<lambda>e. fst e = ''b1'') (snd (updateBullets (1 / 100) 100 crowded_engine)) =
     [(''b1'', ''p2''), (''b1'', ''p3'')]"
    unfolding v by simp
  with hit_events_per_bullet [OF d m, of "1 / 100" 100]
  have "map_of (bullets (fst (updateBullets (1 / 100) 100 crowded_engine))) ''b1'' = None"
    by simp
  with 1 show ?thesis by blast
qed

end
